theory Spec2Isabelle
  imports Complex_Main "HOL-Library.AList" "HOL-Library.Char_ord" "HOL-Library.List_Lexorder"
    "HOL-Library.Log_Nat"
begin

section \<open>Scoring and dashboard services of the TrackerRMS revenue attribution app\<close>

text \<open>
  The development embeds \<^verbatim>\<open>ScoringService\<close> (scoring-service.js) and the parts of
  \<^verbatim>\<open>DashboardService\<close> (dashboard-service.js) that build the velocity report and the
  score histogram.

  Conventions of the embedding.
  \<^item> Numbers. In the velocity score, the tiers, the histogram, batch scoring and the
    velocity report a JavaScript number is an exact \<^typ>\<open>real\<close>. The margin proxy of the
    ROI score, the overall score with weights of the caller and the sums of the
    service-line attribution depend on the rounding of IEEE 754 doubles at ordinary
    inputs; they are embedded over a model of double-precision arithmetic (type
    \<open>jsnum\<close>, with the infinities and \<^verbatim>\<open>NaN\<close>). Where a function has both embeddings the
    one over doubles carries the suffix \<open>_ieee\<close>.
  \<^item> An optional numeric field is a \<^typ>\<open>real option\<close>: the number as it is written in
    the JSON text or the literal. The exact-real functions read it with \<open>orZero\<close>, the
    functions over doubles with \<open>fieldOr0\<close>, which takes the nearest double.
  \<^item> A timestamp field holds what JSON delivers: nothing, \<^verbatim>\<open>null\<close> or a string.
  \<^item> \<^verbatim>\<open>Date.parse\<close> and the year-month prefix of \<^verbatim>\<open>Date.prototype.toISOString\<close>
    belong to the runtime and are parameters (\<open>parse\<close>, \<open>isoMonth\<close>) of the functions
    that use them. A time value is an \<^typ>\<open>int\<close> of milliseconds; an invalid date is
    \<^const>\<open>None\<close>.
  \<^item> An object used as a dictionary is the association list of its own properties in
    creation order; reading a key that is not an own property finds what
    \<^verbatim>\<open>Object.prototype\<close> provides (\<open>getProperty\<close>), and enumeration lists the keys that
    are array indices first (\<open>objectEntries\<close>). Every call starts from the initial
    \<^verbatim>\<open>Object.prototype\<close>.
  \<^item> An embedded \<^verbatim>\<open>job\<close> or \<^verbatim>\<open>attribution\<close> of a placement is absent or an object;
    the elements of a list of placements are objects.
  \<^item> The logger is an external collaborator; its calls have no effect on results.
\<close>

subsection \<open>JavaScript values and built-ins\<close>

datatype jsvalue = Undefined | Null | Str string

datatype js_error = RangeError | TypeError

text \<open>Truthiness of a timestamp field: only a non-empty string is truthy.\<close>

fun truthy :: "jsvalue \<Rightarrow> bool" where
  "truthy Undefined = False"
| "truthy Null = False"
| "truthy (Str s) = (s \<noteq> [])"

text \<open>\<^verbatim>\<open>a || b\<close> on timestamp fields.\<close>

definition js_or :: "jsvalue \<Rightarrow> jsvalue \<Rightarrow> jsvalue" where
  "js_or a b = (if truthy a then a else b)"

text \<open>
  \<^verbatim>\<open>new Date(v)\<close>: \<^verbatim>\<open>undefined\<close> gives an invalid date, \<^verbatim>\<open>null\<close> converts to the
  number 0 and so to the epoch, a string goes through \<^verbatim>\<open>Date.parse\<close>.
\<close>

fun newDate :: "(string \<Rightarrow> int option) \<Rightarrow> jsvalue \<Rightarrow> int option" where
  "newDate parse Undefined = None"
| "newDate parse Null = Some 0"
| "newDate parse (Str s) = parse s"

text \<open>\<^verbatim>\<open>date.toISOString()\<close> throws a RangeError on an invalid date.\<close>

fun toISOMonth :: "(int \<Rightarrow> string) \<Rightarrow> int option \<Rightarrow> js_error + string" where
  "toISOMonth isoMonth None = Inl RangeError"
| "toISOMonth isoMonth (Some t) = Inr (isoMonth t)"

text \<open>\<^verbatim>\<open>Math.round\<close>: the nearest integer, a tie going up.\<close>

definition js_round :: "real \<Rightarrow> int" where
  "js_round x = \<lfloor>x + 1 / 2\<rfloor>"

text \<open>\<^verbatim>\<open>x || 0\<close> on an optional number (0 itself is falsy and reads as 0).\<close>

fun orZero :: "real option \<Rightarrow> real" where
  "orZero None = 0"
| "orZero (Some x) = x"

text \<open>\<^verbatim>\<open>xs.reduce((a, b) => a + b, 0) / xs.length\<close>, used where the list is not empty.\<close>

definition mean :: "real list \<Rightarrow> real" where
  "mean xs = sum_list xs / real (length xs)"

subsection \<open>IEEE 754 double-precision arithmetic\<close>

text \<open>
  A double is a finite value, an infinity or \<^verbatim>\<open>NaN\<close>. The model has one zero: the only
  operation that tells the two zeros of IEEE apart is a division by zero, and the
  functions embedded here test every divisor against 0 first.
\<close>

datatype jsnum = Fin real | PosInf | NegInf | NaN

text \<open>Rounding to the nearest integer, a tie going to the even one.\<close>

definition roundEven :: "real \<Rightarrow> int" where
  "roundEven y =
     (let f = \<lfloor>y\<rfloor>; d = y - of_int f
      in if d < 1 / 2 then f else if d > 1 / 2 then f + 1 else if even f then f else f + 1)"

text \<open>The binary exponent \<open>\<lfloor>log\<^sub>2 \<bar>x\<bar>\<rfloor>\<close> of a number other than 0.\<close>

definition expo :: "real \<Rightarrow> int" where
  "expo x =
     (if \<bar>x\<bar> \<ge> 1 then bitlen \<lfloor>\<bar>x\<bar>\<rfloor> - 1 else - bitlen (\<lceil>1 / \<bar>x\<bar>\<rceil> - 1))"

definition pow2 :: "int \<Rightarrow> real" where
  "pow2 k = (if k \<ge> 0 then 2 ^ nat k else 1 / 2 ^ nat (- k))"

text \<open>
  The double nearest to a real number (round to nearest, ties to even): 53 significant
  bits, gradual underflow below \<open>2^-1022\<close>, overflow to an infinity when the rounded
  value reaches \<open>2^1024\<close>.
\<close>

definition fl :: "real \<Rightarrow> jsnum" where
  "fl x =
     (if x = 0 then Fin 0
      else (let q = pow2 (max (expo x) (- 1022) - 52);
                r = of_int (roundEven (x / q)) * q
            in if \<bar>r\<bar> \<ge> 2 ^ 1024 then (if x > 0 then PosInf else NegInf) else Fin r))"

definition isZero :: "jsnum \<Rightarrow> bool" where
  "isZero a = (a = Fin 0)"

definition isNegative :: "jsnum \<Rightarrow> bool" where
  "isNegative a = (case a of Fin x \<Rightarrow> x < 0 | NegInf \<Rightarrow> True | _ \<Rightarrow> False)"

definition fneg :: "jsnum \<Rightarrow> jsnum" where
  "fneg a = (case a of Fin x \<Rightarrow> Fin (- x) | PosInf \<Rightarrow> NegInf | NegInf \<Rightarrow> PosInf | NaN \<Rightarrow> NaN)"

definition fadd :: "jsnum \<Rightarrow> jsnum \<Rightarrow> jsnum" where
  "fadd a b =
     (case a of
        Fin x \<Rightarrow> (case b of Fin y \<Rightarrow> fl (x + y) | _ \<Rightarrow> b)
      | PosInf \<Rightarrow> (case b of NegInf \<Rightarrow> NaN | NaN \<Rightarrow> NaN | _ \<Rightarrow> PosInf)
      | NegInf \<Rightarrow> (case b of PosInf \<Rightarrow> NaN | NaN \<Rightarrow> NaN | _ \<Rightarrow> NegInf)
      | NaN \<Rightarrow> NaN)"

definition fsub :: "jsnum \<Rightarrow> jsnum \<Rightarrow> jsnum" where
  "fsub a b = fadd a (fneg b)"

definition fmul :: "jsnum \<Rightarrow> jsnum \<Rightarrow> jsnum" where
  "fmul a b =
     (case (a, b) of
        (Fin x, Fin y) \<Rightarrow> fl (x * y)
      | (NaN, _) \<Rightarrow> NaN
      | (_, NaN) \<Rightarrow> NaN
      | _ \<Rightarrow> if isZero a \<or> isZero b then NaN
             else if isNegative a \<noteq> isNegative b then NegInf else PosInf)"

definition fdiv :: "jsnum \<Rightarrow> jsnum \<Rightarrow> jsnum" where
  "fdiv a b =
     (case (a, b) of
        (NaN, _) \<Rightarrow> NaN
      | (_, NaN) \<Rightarrow> NaN
      | (Fin x, Fin y) \<Rightarrow>
          if y = 0 then (if x = 0 then NaN else if x > 0 then PosInf else NegInf)
          else fl (x / y)
      | (Fin x, _) \<Rightarrow> Fin 0
      | (_, Fin y) \<Rightarrow> if isNegative a \<noteq> (y < 0) then NegInf else PosInf
      | _ \<Rightarrow> NaN)"

text \<open>The comparisons \<^verbatim>\<open>a < b\<close> and \<^verbatim>\<open>a === b\<close>; both are false when \<^verbatim>\<open>NaN\<close> takes part.\<close>

definition js_less :: "jsnum \<Rightarrow> jsnum \<Rightarrow> bool" where
  "js_less a b =
     (case (a, b) of
        (NaN, _) \<Rightarrow> False
      | (_, NaN) \<Rightarrow> False
      | (Fin x, Fin y) \<Rightarrow> x < y
      | (NegInf, NegInf) \<Rightarrow> False
      | (NegInf, _) \<Rightarrow> True
      | (_, PosInf) \<Rightarrow> b \<noteq> a
      | _ \<Rightarrow> False)"

definition js_eq :: "jsnum \<Rightarrow> jsnum \<Rightarrow> bool" where
  "js_eq a b = (a \<noteq> NaN \<and> a = b)"

text \<open>
  \<^verbatim>\<open>Math.round\<close> is exact: the nearest integer, a tie going up. \<^verbatim>\<open>Math.min\<close> and
  \<^verbatim>\<open>Math.max\<close> give \<^verbatim>\<open>NaN\<close> when an argument is \<^verbatim>\<open>NaN\<close>.
\<close>

definition mathRound :: "jsnum \<Rightarrow> jsnum" where
  "mathRound a = (case a of Fin x \<Rightarrow> Fin (of_int \<lfloor>x + 1 / 2\<rfloor>) | _ \<Rightarrow> a)"

definition mathMin :: "jsnum \<Rightarrow> jsnum \<Rightarrow> jsnum" where
  "mathMin a b = (if a = NaN \<or> b = NaN then NaN else if js_less b a then b else a)"

definition mathMax :: "jsnum \<Rightarrow> jsnum \<Rightarrow> jsnum" where
  "mathMax a b = (if a = NaN \<or> b = NaN then NaN else if js_less a b then b else a)"

text \<open>
  \<^verbatim>\<open>x || 0\<close> on an optional numeric field, over doubles: an absent field, 0 and
  \<^verbatim>\<open>NaN\<close> read as 0.
\<close>

definition fieldOr0 :: "real option \<Rightarrow> jsnum" where
  "fieldOr0 field =
     (case field of
        None \<Rightarrow> Fin 0
      | Some x \<Rightarrow> (let v = fl x in if v = Fin 0 \<or> v = NaN then Fin 0 else v))"

text \<open>\<^verbatim>\<open>xs.reduce((a, b) => a + b, 0)\<close> over doubles.\<close>

definition sumDoubles :: "jsnum list \<Rightarrow> jsnum" where
  "sumDoubles xs = foldl fadd (Fin 0) xs"

subsection \<open>Plain objects used as dictionaries\<close>

text \<open>
  The names that every plain object inherits from \<^verbatim>\<open>Object.prototype\<close>. All of them
  are functions, except \<^verbatim>\<open>__proto__\<close>, an accessor that yields \<^verbatim>\<open>Object.prototype\<close>
  itself.
\<close>

definition objectPrototypeKeys :: "string list" where
  "objectPrototypeKeys =
     [''constructor'', ''__defineGetter__'', ''__defineSetter__'', ''hasOwnProperty'',
      ''__lookupGetter__'', ''__lookupSetter__'', ''isPrototypeOf'',
      ''propertyIsEnumerable'', ''toString'', ''valueOf'', ''__proto__'',
      ''toLocaleString'']"

text \<open>What \<^verbatim>\<open>obj[key]\<close> finds on a plain object with the own properties \<open>obj\<close>.\<close>

datatype 'v property = OwnValue 'v | InheritedFunction | InheritedPrototype | NoProperty

definition getProperty :: "(string \<times> 'v) list \<Rightarrow> string \<Rightarrow> 'v property" where
  "getProperty obj k =
     (case map_of obj k of
        Some v \<Rightarrow> OwnValue v
      | None \<Rightarrow>
          if k = ''__proto__'' then InheritedPrototype
          else if k \<in> set objectPrototypeKeys then InheritedFunction
          else NoProperty)"

text \<open>
  The order of \<^verbatim>\<open>Object.keys\<close>, \<^verbatim>\<open>Object.values\<close>, \<^verbatim>\<open>Object.entries\<close> and
  \<^verbatim>\<open>for ... in\<close> over the own properties: keys that are array indices (canonical
  decimal numerals below \<open>2^32 - 1\<close>) in ascending numeric order, then the other keys
  in creation order.
\<close>

definition isDigit :: "char \<Rightarrow> bool" where
  "isDigit c = (CHR ''0'' \<le> c \<and> c \<le> CHR ''9'')"

definition decimalValue :: "string \<Rightarrow> nat" where
  "decimalValue s = foldl (\<lambda>n c. 10 * n + (of_char c - 48)) 0 s"

fun isArrayIndex :: "string \<Rightarrow> bool" where
  "isArrayIndex [] = False"
| "isArrayIndex (c # cs) =
     (list_all isDigit (c # cs) \<and> (c \<noteq> CHR ''0'' \<or> cs = []) \<and>
      decimalValue (c # cs) < 4294967295)"

definition objectEntries :: "(string \<times> 'v) list \<Rightarrow> (string \<times> 'v) list" where
  "objectEntries obj =
     sort_key (\<lambda>(k, v). decimalValue k) (filter (\<lambda>(k, v). isArrayIndex k) obj) @
     filter (\<lambda>(k, v). \<not> isArrayIndex k) obj"

subsection \<open>Data model\<close>

record job =
  job_createdAt :: jsvalue
  openDate :: jsvalue

record attribution =
  marketingCost :: "real option"
  salesCost :: "real option"

record placement =
  serviceLine :: "string option"
  revenue :: "real option"
  margin :: "real option"
  startDate :: jsvalue
  createdAt :: jsvalue
  attribution :: "attribution option"
  job :: "job option"
  velocityScore :: "real option"
  roiScore :: "real option"
  overallScore :: "real option"

record weights =
  velocity :: "real option"
  roi :: "real option"

record normalized_weights =
  n_velocity :: real
  n_roi :: real

subsection \<open>ScoringService\<close>

definition calculateVelocityScore ::
  "(string \<Rightarrow> int option) \<Rightarrow> placement option \<Rightarrow> job option \<Rightarrow> int" where
  "calculateVelocityScore parse placement_arg job_arg =
     (case (placement_arg, job_arg) of
        (Some p, Some j) \<Rightarrow>
          (case (newDate parse (js_or (job_createdAt j) (openDate j)),
                 newDate parse (js_or (startDate p) (createdAt p))) of
             (Some jobCreatedDate, Some placementDate) \<Rightarrow>
               (let daysToFill =
                      real_of_int (placementDate - jobCreatedDate) / (1000 * 60 * 60 * 24)
                in if daysToFill < 0 then 100
                   else js_round (max 10 (min 100 (100 - daysToFill * 2))))
           | _ \<Rightarrow> 0)
      | _ \<Rightarrow> 0)"

text \<open>
  The default parameter \<^verbatim>\<open>attributionData = {}\<close> applies when the argument is absent.
  Nothing in the body throws on the values of this model, so the \<^verbatim>\<open>catch\<close> branch
  is never taken.
\<close>

definition calculateROIScore :: "placement option \<Rightarrow> attribution option \<Rightarrow> int" where
  "calculateROIScore placement_arg attributionData =
     (case placement_arg of
        None \<Rightarrow> 0
      | Some p \<Rightarrow>
          (let a = (case attributionData of
                      None \<Rightarrow> \<lparr>marketingCost = None, salesCost = None\<rparr>
                    | Some d \<Rightarrow> d);
               revenue_v = orZero (revenue p);
               margin_v = orZero (margin p);
               totalCost = orZero (marketingCost a) + orZero (salesCost a)
           in if totalCost = 0
              then (let marginPercentage = (if revenue_v > 0 then (margin_v / revenue_v) * 100 else 0)
                    in min 100 (js_round (marginPercentage * 2)))
              else (let roi_v = ((revenue_v - totalCost) / totalCost) * 100
                    in min 100 (max 0 (js_round (roi_v / 5))))))"

text \<open>
  A weights object has the keys of the default parameter, \<^verbatim>\<open>velocity\<close> and \<^verbatim>\<open>roi\<close>,
  each optional; \<^verbatim>\<open>Object.values(weights)\<close> adds up the ones that are present.
\<close>

definition normalizeWeights :: "weights \<Rightarrow> normalized_weights" where
  "normalizeWeights w =
     (let total = orZero (velocity w) + orZero (roi w)
      in if total = 0 then \<lparr>n_velocity = 1 / 2, n_roi = 1 / 2\<rparr>
         else \<lparr>n_velocity = orZero (velocity w) / total, n_roi = orZero (roi w) / total\<rparr>)"

definition defaultWeights :: weights where
  "defaultWeights = \<lparr>velocity = Some (4 / 10), roi = Some (6 / 10)\<rparr>"

definition calculateOverallScore :: "real \<Rightarrow> real \<Rightarrow> weights option \<Rightarrow> int" where
  "calculateOverallScore vScore rScore weights_arg =
     (let normalizedWeights =
            normalizeWeights (case weights_arg of None \<Rightarrow> defaultWeights | Some w \<Rightarrow> w)
      in js_round (vScore * n_velocity normalizedWeights + rScore * n_roi normalizedWeights))"

definition batchCalculateScores ::
  "(string \<Rightarrow> int option) \<Rightarrow> placement list \<Rightarrow> placement list" where
  "batchCalculateScores parse placements =
     map (\<lambda>p.
       let vScore = calculateVelocityScore parse (Some p) (job p);
           rScore = calculateROIScore (Some p) (attribution p);
           oScore = calculateOverallScore (of_int vScore) (of_int rScore) None
       in p\<lparr>velocityScore := Some (of_int vScore),
             roiScore := Some (of_int rScore),
             overallScore := Some (of_int oScore)\<rparr>) placements"

definition getScoreTier :: "real \<Rightarrow> string" where
  "getScoreTier score =
     (if score \<ge> 90 then ''excellent''
      else if score \<ge> 75 then ''good''
      else if score \<ge> 50 then ''average''
      else if score \<ge> 25 then ''below_average''
      else ''poor'')"

subsection \<open>ScoringService over doubles\<close>

text \<open>An argument that may be absent (\<^verbatim>\<open>undefined\<close>), \<^verbatim>\<open>null\<close> or an object.\<close>

datatype 'a jsref = Missing | IsNull | Obj 'a

text \<open>
  \<^verbatim>\<open>calculateROIScore\<close> over doubles. The default parameter \<^verbatim>\<open>{}\<close> replaces an absent
  argument only; on \<^verbatim>\<open>null\<close> the read of \<^verbatim>\<open>attributionData.marketingCost\<close> throws a
  TypeError inside the \<^verbatim>\<open>try\<close> block and the \<^verbatim>\<open>catch\<close> branch returns 0.
\<close>

definition calculateROIScore_ieee :: "placement option \<Rightarrow> attribution jsref \<Rightarrow> jsnum" where
  "calculateROIScore_ieee placement_arg attributionData =
     (case placement_arg of
        None \<Rightarrow> Fin 0
      | Some p \<Rightarrow>
          (case (case attributionData of
                   Missing \<Rightarrow> Inr \<lparr>marketingCost = None, salesCost = None\<rparr>
                 | IsNull \<Rightarrow> Inl TypeError
                 | Obj d \<Rightarrow> Inr d) of
             Inl e \<Rightarrow> Fin 0
           | Inr a \<Rightarrow>
               (let revenue_v = fieldOr0 (revenue p);
                    margin_v = fieldOr0 (margin p);
                    totalCost = fadd (fieldOr0 (marketingCost a)) (fieldOr0 (salesCost a))
                in if js_eq totalCost (Fin 0)
                   then (let marginPercentage =
                               (if js_less (Fin 0) revenue_v
                                then fmul (fdiv margin_v revenue_v) (Fin 100) else Fin 0)
                         in mathMin (Fin 100) (mathRound (fmul marginPercentage (Fin 2))))
                   else (let roi_v = fmul (fdiv (fsub revenue_v totalCost) totalCost) (Fin 100)
                         in mathMin (Fin 100)
                              (mathMax (Fin 0) (mathRound (fdiv roi_v (Fin 5))))))))"

text \<open>
  A weights object is the list of its own properties, key and numeric value, in
  creation order, with distinct keys. \<^verbatim>\<open>Object.values(weights).reduce(...)\<close> adds up the
  values of all keys in enumeration order; only \<^verbatim>\<open>velocity\<close> and \<^verbatim>\<open>roi\<close> are read
  afterwards.
\<close>

type_synonym weights_object = "(string \<times> real) list"

record normalized_weights_ieee =
  nw_velocity :: jsnum
  nw_roi :: jsnum

definition weightsTotal :: "weights_object \<Rightarrow> jsnum" where
  "weightsTotal w = sumDoubles (map (\<lambda>(k, x). fl x) (objectEntries w))"

definition normalizeWeights_ieee :: "weights_object \<Rightarrow> normalized_weights_ieee" where
  "normalizeWeights_ieee w =
     (let total = weightsTotal w
      in if js_eq total (Fin 0) then \<lparr>nw_velocity = Fin (1 / 2), nw_roi = Fin (1 / 2)\<rparr>
         else \<lparr>nw_velocity = fdiv (fieldOr0 (map_of w ''velocity'')) total,
               nw_roi = fdiv (fieldOr0 (map_of w ''roi'')) total\<rparr>)"

definition defaultWeights_ieee :: weights_object where
  "defaultWeights_ieee = [(''velocity'', 4 / 10), (''roi'', 6 / 10)]"

definition calculateOverallScore_ieee ::
  "jsnum \<Rightarrow> jsnum \<Rightarrow> weights_object option \<Rightarrow> jsnum" where
  "calculateOverallScore_ieee vScore rScore weights_arg =
     (let normalizedWeights =
            normalizeWeights_ieee
              (case weights_arg of None \<Rightarrow> defaultWeights_ieee | Some w \<Rightarrow> w)
      in mathRound (fadd (fmul vScore (nw_velocity normalizedWeights))
                         (fmul rScore (nw_roi normalizedWeights))))"

subsection \<open>Service-line attribution\<close>

text \<open>\<^verbatim>\<open>placement.serviceLine || 'Unassigned'\<close>: an absent or empty label is falsy.\<close>

definition lineOf :: "placement \<Rightarrow> string" where
  "lineOf p =
     (case serviceLine p of
        None \<Rightarrow> ''Unassigned''
      | Some s \<Rightarrow> if s = [] then ''Unassigned'' else s)"

record attribution_summary =
  as_serviceLine :: string
  placementCount :: nat
  totalRevenue :: jsnum
  totalMargin :: jsnum
  averageVelocity :: jsnum

text \<open>The entry while the loop runs still has its list \<^verbatim>\<open>velocityScores\<close>.\<close>

record attribution_entry = attribution_summary +
  velocityScores :: "jsnum list"

definition newEntry :: "string \<Rightarrow> attribution_entry" where
  "newEntry sl =
     \<lparr>as_serviceLine = sl, placementCount = 0, totalRevenue = Fin 0, totalMargin = Fin 0,
      averageVelocity = Fin 0, velocityScores = []\<rparr>"

text \<open>
  \<^verbatim>\<open>if (placement.velocityScore)\<close> tests truthiness: an absent score and the score 0
  are both falsy.
\<close>

definition truthyScore :: "placement \<Rightarrow> jsnum option" where
  "truthyScore p =
     (case velocityScore p of
        None \<Rightarrow> None
      | Some x \<Rightarrow> (let v = fl x in if v = Fin 0 \<or> v = NaN then None else Some v))"

text \<open>The body of the first loop on the own entry of the service line.\<close>

definition addPlacement :: "placement \<Rightarrow> attribution_entry \<Rightarrow> attribution_entry" where
  "addPlacement p d =
     d\<lparr>placementCount := placementCount d + 1,
       totalRevenue := fadd (totalRevenue d) (fieldOr0 (revenue p)),
       totalMargin := fadd (totalMargin d) (fieldOr0 (margin p)),
       velocityScores :=
         (case truthyScore p of
            None \<Rightarrow> velocityScores d
          | Some v \<Rightarrow> velocityScores d @ [v])\<rparr>"

text \<open>
  One round of the first loop. The state is the object \<^verbatim>\<open>attribution\<close> and a flag that
  tells whether \<^verbatim>\<open>Object.prototype\<close> has been written to.
  \<^item> The label is an own key, or \<^verbatim>\<open>attribution[serviceLine]\<close> is undefined and the entry
    is created: the entry is updated.
  \<^item> The label is the name of an inherited function: \<^verbatim>\<open>!attribution[serviceLine]\<close> is
    false and no entry is created; the counters are written to the function object,
    and \<^verbatim>\<open>velocityScores\<close> of the function is undefined, so the push of a truthy score
    throws a TypeError.
  \<^item> The label is \<^verbatim>\<open>__proto__\<close>: the same with \<^verbatim>\<open>Object.prototype\<close> in place of the
    function, which now carries the enumerable properties \<^verbatim>\<open>placementCount\<close>,
    \<^verbatim>\<open>totalRevenue\<close> and \<^verbatim>\<open>totalMargin\<close>.
\<close>

definition attributionStep ::
  "placement \<Rightarrow> (string \<times> attribution_entry) list \<times> bool \<Rightarrow>
   js_error + ((string \<times> attribution_entry) list \<times> bool)" where
  "attributionStep p st =
     (case st of (attr, polluted) \<Rightarrow>
        (let sl = lineOf p
         in case getProperty attr sl of
              OwnValue d \<Rightarrow> Inr (AList.map_entry sl (addPlacement p) attr, polluted)
            | NoProperty \<Rightarrow>
                Inr (AList.map_entry sl (addPlacement p) (attr @ [(sl, newEntry sl)]), polluted)
            | InheritedFunction \<Rightarrow>
                (if truthyScore p \<noteq> None then Inl TypeError else Inr (attr, polluted))
            | InheritedPrototype \<Rightarrow>
                (if truthyScore p \<noteq> None then Inl TypeError else Inr (attr, True))))"

fun attributionLoop ::
  "placement list \<Rightarrow> (string \<times> attribution_entry) list \<times> bool \<Rightarrow>
   js_error + ((string \<times> attribution_entry) list \<times> bool)" where
  "attributionLoop [] st = Inr st"
| "attributionLoop (p # ps) st =
     (case attributionStep p st of
        Inl e \<Rightarrow> Inl e
      | Inr st' \<Rightarrow> attributionLoop ps st')"

text \<open>The second loop: set the average where scores were collected, drop the list.\<close>

definition finishEntry :: "attribution_entry \<Rightarrow> attribution_summary" where
  "finishEntry d =
     \<lparr>as_serviceLine = as_serviceLine d,
      placementCount = placementCount d,
      totalRevenue = totalRevenue d,
      totalMargin = totalMargin d,
      averageVelocity =
        (if length (velocityScores d) > 0
         then mathRound (fdiv (sumDoubles (velocityScores d))
                              (Fin (real (length (velocityScores d)))))
         else averageVelocity d)\<rparr>"

text \<open>
  \<^verbatim>\<open>for (const serviceLine in attribution)\<close> visits the own keys and then the enumerable
  properties of \<^verbatim>\<open>Object.prototype\<close> that no own key hides. After a write to
  \<^verbatim>\<open>Object.prototype\<close> these are the three counters; their value is not an entry and
  the read of \<^verbatim>\<open>data.velocityScores.length\<close> throws a TypeError. The result is the
  object with its entries in enumeration order.
\<close>

definition calculateServiceLineAttribution ::
  "placement list \<Rightarrow> js_error + (string \<times> attribution_summary) list" where
  "calculateServiceLineAttribution placements =
     (case attributionLoop placements ([], False) of
        Inl e \<Rightarrow> Inl e
      | Inr (attr, polluted) \<Rightarrow>
          if polluted \<and>
             \<not> set [''placementCount'', ''totalRevenue'', ''totalMargin''] \<subseteq> fst ` set attr
          then Inl TypeError
          else Inr (objectEntries (map (\<lambda>(sl, d). (sl, finishEntry d)) attr)))"

subsection \<open>DashboardService\<close>

definition emptyBuckets :: "(string \<times> nat) list" where
  "emptyBuckets =
     [(''excellent (90-100)'', 0),
      (''good (75-89)'', 0),
      (''average (50-74)'', 0),
      (''below_average (25-49)'', 0),
      (''poor (0-24)'', 0)]"

fun distributionLoop :: "real list \<Rightarrow> (string \<times> nat) list \<Rightarrow> (string \<times> nat) list" where
  "distributionLoop [] buckets = buckets"
| "distributionLoop (score # rest) buckets =
     distributionLoop rest
       (if score \<ge> 90 then AList.map_entry ''excellent (90-100)'' Suc buckets
        else if score \<ge> 75 then AList.map_entry ''good (75-89)'' Suc buckets
        else if score \<ge> 50 then AList.map_entry ''average (50-74)'' Suc buckets
        else if score \<ge> 25 then AList.map_entry ''below_average (25-49)'' Suc buckets
        else AList.map_entry ''poor (0-24)'' Suc buckets)"

definition calculateScoreDistribution :: "real list \<Rightarrow> (string \<times> nat) list" where
  "calculateScoreDistribution scores = distributionLoop scores emptyBuckets"

record line_velocity =
  lv_scores :: "real list"
  lv_count :: nat

record trend_entry =
  te_month :: string
  te_scores :: "real list"

record service_line_stat =
  st_serviceLine :: string
  st_averageVelocity :: int
  st_placementCount :: nat
  st_tier :: string

record trend_point =
  tp_month :: string
  tp_averageVelocity :: int

record velocity_summary =
  overallAverageVelocity :: int
  tier :: string
  totalPlacements :: nat

record velocity_report =
  summary :: velocity_summary
  byServiceLine :: "service_line_stat list"
  trend :: "trend_point list"
  distribution :: "(string \<times> nat) list"

text \<open>
  \<^verbatim>\<open>velocityTrend.find(t => t.month === month)\<close>, then push the score to the entry found
  or append a new entry.
\<close>

fun pushTrend :: "string \<Rightarrow> real \<Rightarrow> trend_entry list \<Rightarrow> trend_entry list" where
  "pushTrend m v [] = [\<lparr>te_month = m, te_scores = [v]\<rparr>]"
| "pushTrend m v (t # ts) =
     (if te_month t = m then t\<lparr>te_scores := te_scores t @ [v]\<rparr> # ts
      else t # pushTrend m v ts)"

text \<open>
  The loop of \<^verbatim>\<open>getPlacementVelocityData\<close> over the scored placements. Each of them
  carries a \<^verbatim>\<open>velocityScore\<close> (set by \<^verbatim>\<open>batchCalculateScores\<close>), read with
  \<^const>\<open>the\<close>. When the label is an inherited name, \<^verbatim>\<open>velocityByServiceLine[serviceLine]\<close>
  is the inherited value, no entry is created, \<^verbatim>\<open>scores\<close> is undefined and the push
  throws a TypeError. The month is taken with \<^verbatim>\<open>toISOString\<close>, which throws a
  RangeError on an invalid date. Nothing in the function catches either.
\<close>

fun velocityLoop ::
  "(string \<Rightarrow> int option) \<Rightarrow> (int \<Rightarrow> string) \<Rightarrow> placement list \<Rightarrow>
   (string \<times> line_velocity) list \<times> trend_entry list \<Rightarrow>
   js_error + ((string \<times> line_velocity) list \<times> trend_entry list)" where
  "velocityLoop parse isoMonth [] st = Inr st"
| "velocityLoop parse isoMonth (p # ps) (byLine, velocityTrend) =
     (let sl = lineOf p;
          pushScore = (\<lambda>d. d\<lparr>lv_scores := lv_scores d @ [the (velocityScore p)],
                               lv_count := lv_count d + 1\<rparr>)
      in case (case getProperty byLine sl of
                 OwnValue d \<Rightarrow> Inr (AList.map_entry sl pushScore byLine)
               | NoProperty \<Rightarrow>
                   Inr (AList.map_entry sl pushScore
                          (byLine @ [(sl, \<lparr>lv_scores = [], lv_count = 0\<rparr>)]))
               | InheritedFunction \<Rightarrow> Inl TypeError
               | InheritedPrototype \<Rightarrow> Inl TypeError) of
           Inl e \<Rightarrow> Inl e
         | Inr byLine2 \<Rightarrow>
             (case toISOMonth isoMonth (newDate parse (js_or (startDate p) (createdAt p))) of
                Inl e \<Rightarrow> Inl e
              | Inr month \<Rightarrow>
                  velocityLoop parse isoMonth ps
                    (byLine2, pushTrend month (the (velocityScore p)) velocityTrend)))"

text \<open>
  \<^verbatim>\<open>localeCompare\<close> on the month keys is the lexicographic order of the strings
  (they are made of digits and a hyphen); the sort is stable.
\<close>

definition getPlacementVelocityData ::
  "(string \<Rightarrow> int option) \<Rightarrow> (int \<Rightarrow> string) \<Rightarrow> placement list \<Rightarrow>
   js_error + velocity_report" where
  "getPlacementVelocityData parse isoMonth placements =
     (let placementsWithScores = batchCalculateScores parse placements
      in case velocityLoop parse isoMonth placementsWithScores ([], []) of
           Inl e \<Rightarrow> Inl e
         | Inr (velocityByServiceLine, velocityTrend) \<Rightarrow>
             (let serviceLineStats =
                    map (\<lambda>(name, d).
                          \<lparr>st_serviceLine = name,
                           st_averageVelocity = js_round (mean (lv_scores d)),
                           st_placementCount = lv_count d,
                           st_tier = getScoreTier (mean (lv_scores d))\<rparr>)
                        (objectEntries velocityByServiceLine);
                  trendData =
                    map (\<lambda>t. \<lparr>tp_month = te_month t,
                               tp_averageVelocity = js_round (mean (te_scores t))\<rparr>)
                        (sort_key te_month velocityTrend);
                  scores = map (\<lambda>p. the (velocityScore p)) placementsWithScores;
                  overallAverage =
                    (if length placementsWithScores > 0 then js_round (mean scores) else 0)
              in Inr \<lparr>summary =
                        \<lparr>overallAverageVelocity = overallAverage,
                         tier = getScoreTier (of_int overallAverage),
                         totalPlacements = length placements\<rparr>,
                      byServiceLine = serviceLineStats,
                      trend = trendData,
                      distribution = calculateScoreDistribution scores\<rparr>))"

subsection \<open>A sample runtime\<close>

text \<open>
  What \<^verbatim>\<open>Date.parse\<close> and \<^verbatim>\<open>toISOString\<close> give on the timestamps of the repository's
  unit tests; used to run the functions on concrete records. Only these timestamps are
  meant: on every other string \<open>testParse\<close> reports an invalid date, and outside
  January and June 2024 \<open>testIsoMonth\<close> returns a fixed key.
\<close>

definition testParse :: "string \<Rightarrow> int option" where
  "testParse s =
     (if s = ''2024-01-01T00:00:00Z'' then Some 1704067200000
      else if s = ''2024-01-05T00:00:00Z'' then Some 1704412800000
      else if s = ''2024-01-10T00:00:00Z'' then Some 1704844800000
      else if s = ''2024-01-15T00:00:00Z'' then Some 1705276800000
      else if s = ''2024-06-01T00:00:00Z'' then Some 1717200000000
      else None)"

definition testIsoMonth :: "int \<Rightarrow> string" where
  "testIsoMonth t =
     (if 1704067200000 \<le> t \<and> t < 1706745600000 then ''2024-01''
      else if 1717200000000 \<le> t \<and> t < 1719792000000 then ''2024-06''
      else ''1970-01'')"

text \<open>A record with every optional field absent, to build test placements from.\<close>

definition emptyPlacement :: placement where
  "emptyPlacement =
     \<lparr>serviceLine = None, revenue = None, margin = None,
      startDate = Undefined, createdAt = Undefined,
      attribution = None, job = None,
      velocityScore = None, roiScore = None, overallScore = None\<rparr>"

subsection \<open>Notions used to state the properties\<close>

text \<open>The placements of a list that fall under one service line.\<close>

definition groupOf :: "string \<Rightarrow> placement list \<Rightarrow> placement list" where
  "groupOf k ps = filter (\<lambda>p. lineOf p = k) ps"

text \<open>
  The velocity scores of a list of placements that pass the truthiness test of
  \<^verbatim>\<open>calculateServiceLineAttribution\<close>: present and not 0.
\<close>

definition truthyScores :: "placement list \<Rightarrow> jsnum list" where
  "truthyScores g =
     concat (map (\<lambda>p. case truthyScore p of None \<Rightarrow> [] | Some v \<Rightarrow> [v]) g)"

text \<open>The labels that are safe as keys of a plain object.\<close>

definition safeLabels :: "placement list \<Rightarrow> bool" where
  "safeLabels ps = list_all (\<lambda>p. lineOf p \<notin> set objectPrototypeKeys) ps"

subsection \<open>The specification's wording, for comparison\<close>

text \<open>
  The margin proxy as the specification words it: the margin percentage is
  \<^verbatim>\<open>margin / revenue * 100\<close>, or 0 if the revenue equals 0; the score is the doubled
  percentage, rounded and capped at 100. The operations are those of doubles.
\<close>

definition spec_marginProxyScore :: "jsnum \<Rightarrow> jsnum \<Rightarrow> jsnum" where
  "spec_marginProxyScore revenue_v margin_v =
     (let marginPercentage =
            (if js_eq revenue_v (Fin 0) then Fin 0
             else fmul (fdiv margin_v revenue_v) (Fin 100))
      in mathMin (Fin 100) (mathRound (fmul marginPercentage (Fin 2))))"

text \<open>
  The overall score as the specification words it: the weights normalized so that they
  add up to 1, and the weighted sum of the two scores rounded.
\<close>

definition spec_overallScore :: "real \<Rightarrow> real \<Rightarrow> real \<Rightarrow> real \<Rightarrow> int" where
  "spec_overallScore vScore rScore wVelocity wRoi =
     (let total = wVelocity + wRoi;
          nVelocity = (if total = 0 then 1 / 2 else wVelocity / total);
          nRoi = (if total = 0 then 1 / 2 else wRoi / total)
      in js_round (vScore * nVelocity + rScore * nRoi))"

text \<open>
  The averaging set as the specification words it: the scores of the placements that
  carry a \<^verbatim>\<open>velocityScore\<close> field.
\<close>

definition spec_carriedScores :: "placement list \<Rightarrow> jsnum list" where
  "spec_carriedScores g =
     concat (map (\<lambda>p. case velocityScore p of None \<Rightarrow> [] | Some x \<Rightarrow> [fl x]) g)"

section \<open>Properties\<close>

subsection \<open>Rounding\<close>

lemma js_round_mono: "x \<le> y \<Longrightarrow> js_round x \<le> js_round y"
  by (simp add: js_round_def floor_mono)

lemma js_round_of_int: "js_round (of_int n) = n"
  by (simp add: js_round_def)

lemma js_round_bounds:
  assumes "of_int lo \<le> x" and "x \<le> of_int hi"
  shows "lo \<le> js_round x \<and> js_round x \<le> hi"
  using js_round_mono [OF assms(1)] js_round_mono [OF assms(2)]
  by (simp add: js_round_of_int)

subsection \<open>Score tiers\<close>

text \<open>
  C8. For every score, \<^verbatim>\<open>getScoreTier\<close> returns exactly one of the five labels, by
  inclusive lower bounds: excellent from 90, good from 75 below 90, average from 50
  below 75, below\_average from 25 below 50, poor otherwise. The boundary values 90,
  89, 74, 49 and 24 fall in excellent, good, average, below\_average and poor.
\<close>

theorem getScoreTier_thresholds:
  "(getScoreTier score = ''excellent'' \<longleftrightarrow> 90 \<le> score) \<and>
   (getScoreTier score = ''good'' \<longleftrightarrow> 75 \<le> score \<and> score < 90) \<and>
   (getScoreTier score = ''average'' \<longleftrightarrow> 50 \<le> score \<and> score < 75) \<and>
   (getScoreTier score = ''below_average'' \<longleftrightarrow> 25 \<le> score \<and> score < 50) \<and>
   (getScoreTier score = ''poor'' \<longleftrightarrow> score < 25) \<and>
   getScoreTier 90 = ''excellent'' \<and> getScoreTier 89 = ''good'' \<and>
   getScoreTier 74 = ''average'' \<and> getScoreTier 49 = ''below_average'' \<and>
   getScoreTier 24 = ''poor''"
  by (simp add: getScoreTier_def)

subsection \<open>Velocity score\<close>

lemma velocity_valid:
  assumes "newDate parse (js_or (job_createdAt j) (openDate j)) = Some openT"
    and "newDate parse (js_or (startDate p) (createdAt p)) = Some fillT"
  shows "calculateVelocityScore parse (Some p) (Some j) =
     (if real_of_int (fillT - openT) / 86400000 < 0 then 100
      else js_round (max 10 (min 100 (100 - real_of_int (fillT - openT) / 86400000 * 2))))"
  using assms by (simp add: calculateVelocityScore_def Let_def)

text \<open>
  C4. When both timestamps parse and \<open>daysToFill\<close>, the difference of fill and open
  time in days of 24 hours, is not negative, the velocity score is
  \<open>round (clamp (100 - daysToFill * 2))\<close> with the clamp to the interval from 10 to 100.
  Equal timestamps give 100; 45 days or more give 10.
\<close>

theorem calculateVelocityScore_decay:
  assumes "newDate parse (js_or (job_createdAt j) (openDate j)) = Some openT"
    and "newDate parse (js_or (startDate p) (createdAt p)) = Some fillT"
    and "daysToFill = real_of_int (fillT - openT) / 86400000"
    and "0 \<le> daysToFill"
  shows "calculateVelocityScore parse (Some p) (Some j) =
           js_round (max 10 (min 100 (100 - daysToFill * 2))) \<and>
         (fillT = openT \<longrightarrow> calculateVelocityScore parse (Some p) (Some j) = 100) \<and>
         (45 \<le> daysToFill \<longrightarrow> calculateVelocityScore parse (Some p) (Some j) = 10)"
proof -
  have eq: "calculateVelocityScore parse (Some p) (Some j) =
           js_round (max 10 (min 100 (100 - daysToFill * 2)))"
    unfolding velocity_valid [OF assms(1,2)] using assms(4) unfolding assms(3) by simp
  have same: "calculateVelocityScore parse (Some p) (Some j) = 100" if "fillT = openT"
  proof -
    from that assms(3) have "daysToFill = 0" by simp
    with eq show ?thesis using js_round_of_int [of 100] by simp
  qed
  have floor: "calculateVelocityScore parse (Some p) (Some j) = 10" if "45 \<le> daysToFill"
  proof -
    from that have "max 10 (min 100 (100 - daysToFill * 2)) = 10" by simp
    with eq show ?thesis using js_round_of_int [of 10] by simp
  qed
  from eq same floor show ?thesis by blast
qed

text \<open>
  The theorem at three pairs of the unit tests: a fill after 14 days scores 72, a
  same-day fill 100, a fill after 152 days 10.
\<close>

theorem calculateVelocityScore_decay_witness:
  "calculateVelocityScore testParse
     (Some (emptyPlacement\<lparr>startDate := Str ''2024-01-15T00:00:00Z''\<rparr>))
     (Some \<lparr>job_createdAt = Str ''2024-01-01T00:00:00Z'', openDate = Undefined\<rparr>) = 72 \<and>
   calculateVelocityScore testParse
     (Some (emptyPlacement\<lparr>startDate := Str ''2024-01-01T00:00:00Z''\<rparr>))
     (Some \<lparr>job_createdAt = Str ''2024-01-01T00:00:00Z'', openDate = Undefined\<rparr>) = 100 \<and>
   calculateVelocityScore testParse
     (Some (emptyPlacement\<lparr>startDate := Str ''2024-06-01T00:00:00Z''\<rparr>))
     (Some \<lparr>job_createdAt = Str ''2024-01-01T00:00:00Z'', openDate = Undefined\<rparr>) = 10"
proof -
  let ?j = "\<lparr>job_createdAt = Str ''2024-01-01T00:00:00Z'', openDate = Undefined\<rparr>"
  let ?p1 = "emptyPlacement\<lparr>startDate := Str ''2024-01-15T00:00:00Z''\<rparr>"
  let ?p2 = "emptyPlacement\<lparr>startDate := Str ''2024-01-01T00:00:00Z''\<rparr>"
  let ?p3 = "emptyPlacement\<lparr>startDate := Str ''2024-06-01T00:00:00Z''\<rparr>"
  have j: "newDate testParse (js_or (job_createdAt ?j) (openDate ?j)) = Some 1704067200000"
    by (simp add: js_or_def testParse_def)
  have p1: "newDate testParse (js_or (startDate ?p1) (createdAt ?p1)) = Some 1705276800000"
    by (simp add: js_or_def testParse_def emptyPlacement_def)
  have p2: "newDate testParse (js_or (startDate ?p2) (createdAt ?p2)) = Some 1704067200000"
    by (simp add: js_or_def testParse_def emptyPlacement_def)
  have p3: "newDate testParse (js_or (startDate ?p3) (createdAt ?p3)) = Some 1717200000000"
    by (simp add: js_or_def testParse_def emptyPlacement_def)
  have "calculateVelocityScore testParse (Some ?p1) (Some ?j) = 72"
    using calculateVelocityScore_decay [OF j p1 refl] by (simp add: js_round_def)
  moreover have "calculateVelocityScore testParse (Some ?p2) (Some ?j) = 100"
    using calculateVelocityScore_decay [OF j p2 refl] by simp
  moreover have "calculateVelocityScore testParse (Some ?p3) (Some ?j) = 10"
    using calculateVelocityScore_decay [OF j p3 refl] by simp
  ultimately show ?thesis by blast
qed

text \<open>
  C5. When both timestamps parse and the fill time lies before the open time
  (\<open>daysToFill\<close> negative), the velocity score is the maximum, 100.
\<close>

theorem calculateVelocityScore_negative:
  assumes "newDate parse (js_or (job_createdAt j) (openDate j)) = Some openT"
    and "newDate parse (js_or (startDate p) (createdAt p)) = Some fillT"
    and "real_of_int (fillT - openT) / 86400000 < 0"
  shows "calculateVelocityScore parse (Some p) (Some j) = 100"
  using velocity_valid [OF assms(1,2)] assms(3) by simp

text \<open>A job opened on 15 January with a fill recorded on 1 January.\<close>

theorem calculateVelocityScore_negative_witness:
  "calculateVelocityScore testParse
     (Some (emptyPlacement\<lparr>startDate := Str ''2024-01-01T00:00:00Z''\<rparr>))
     (Some \<lparr>job_createdAt = Str ''2024-01-15T00:00:00Z'', openDate = Undefined\<rparr>) = 100"
proof -
  let ?j = "\<lparr>job_createdAt = Str ''2024-01-15T00:00:00Z'', openDate = Undefined\<rparr>"
  let ?p = "emptyPlacement\<lparr>startDate := Str ''2024-01-01T00:00:00Z''\<rparr>"
  have j: "newDate testParse (js_or (job_createdAt ?j) (openDate ?j)) = Some 1705276800000"
    by (simp add: js_or_def testParse_def)
  have p: "newDate testParse (js_or (startDate ?p) (createdAt ?p)) = Some 1704067200000"
    by (simp add: js_or_def testParse_def emptyPlacement_def)
  have neg: "real_of_int (1704067200000 - 1705276800000) / 86400000 < 0"
    by simp
  show ?thesis
    by (rule calculateVelocityScore_negative [OF j p neg])
qed

subsection \<open>Overall score\<close>

lemma normalizeWeights_sum: "n_velocity (normalizeWeights w) + n_roi (normalizeWeights w) = 1"
  by (simp add: normalizeWeights_def Let_def add_divide_distrib [symmetric])

lemma overall_default:
  "calculateOverallScore v r None = js_round (4 / 10 * v + 6 / 10 * r)"
  by (simp add: calculateOverallScore_def normalizeWeights_def defaultWeights_def Let_def
      mult.commute)

subsection \<open>Ranges of the scores\<close>

lemma velocity_invalid:
  assumes "\<not> (\<exists>pp jj openT fillT. p = Some pp \<and> j = Some jj \<and>
              newDate parse (js_or (job_createdAt jj) (openDate jj)) = Some openT \<and>
              newDate parse (js_or (startDate pp) (createdAt pp)) = Some fillT)"
  shows "calculateVelocityScore parse p j = 0"
  using assms by (auto simp: calculateVelocityScore_def split: option.splits)

lemma velocity_range:
  "0 \<le> calculateVelocityScore parse p j \<and> calculateVelocityScore parse p j \<le> 100"
proof (cases "\<exists>pp jj openT fillT. p = Some pp \<and> j = Some jj \<and>
              newDate parse (js_or (job_createdAt jj) (openDate jj)) = Some openT \<and>
              newDate parse (js_or (startDate pp) (createdAt pp)) = Some fillT")
  case True
  then obtain pp jj openT fillT where
    pj: "p = Some pp" "j = Some jj" and
    o: "newDate parse (js_or (job_createdAt jj) (openDate jj)) = Some openT" and
    f: "newDate parse (js_or (startDate pp) (createdAt pp)) = Some fillT"
    by blast
  have r: "0 \<le> js_round (max 10 (min 100 x)) \<and> js_round (max 10 (min 100 x)) \<le> 100" for x
    using js_round_bounds [of 10 "max 10 (min 100 x)" 100] by simp
  show ?thesis
    unfolding pj velocity_valid [OF o f] using r by (simp only: split: if_split) simp
next
  case False
  then show ?thesis by (simp add: velocity_invalid)
qed

lemma overall_range:
  assumes "0 \<le> v" "v \<le> 100" "0 \<le> r" "r \<le> 100"
    and "0 \<le> orZero (velocity w)" "0 \<le> orZero (roi w)"
  shows "0 \<le> calculateOverallScore v r (Some w) \<and> calculateOverallScore v r (Some w) \<le> 100"
proof -
  let ?a = "n_velocity (normalizeWeights w)" and ?b = "n_roi (normalizeWeights w)"
  have nn: "0 \<le> ?a" "0 \<le> ?b"
    using assms(5,6) by (simp_all add: normalizeWeights_def Let_def)
  have s: "?a + ?b = 1" by (rule normalizeWeights_sum)
  have lo: "0 \<le> v * ?a + r * ?b" using nn assms by simp
  have "v * ?a \<le> 100 * ?a" "r * ?b \<le> 100 * ?b"
    using nn assms by (simp_all add: mult_right_mono)
  then have "v * ?a + r * ?b \<le> 100 * (?a + ?b)" by (simp add: distrib_left)
  with s have hi: "v * ?a + r * ?b \<le> 100" by simp
  from js_round_bounds [of 0 "v * ?a + r * ?b" 100] lo hi
  show ?thesis by (simp add: calculateOverallScore_def Let_def)
qed

lemma roi_upper: "calculateROIScore p a \<le> 100"
  by (simp add: calculateROIScore_def Let_def split: option.splits)

lemma roi_with_cost_range:
  assumes "orZero (marketingCost a) + orZero (salesCost a) \<noteq> 0"
  shows "0 \<le> calculateROIScore p (Some a) \<and> calculateROIScore p (Some a) \<le> 100"
  using assms by (simp add: calculateROIScore_def Let_def split: option.splits)

text \<open>
  C1. Every score is an integer between 0 and 100. The velocity score and the overall
  score are (\<open>velocity_range\<close>, \<open>overall_range\<close>), and the ROI score never exceeds
  100 (\<open>roi_upper\<close>). The branch of \<^verbatim>\<open>calculateROIScore\<close> without cost data caps the
  score at 100 but has no lower bound, unlike the branch with cost data: a placement
  with revenue 10000 and margin -2000 and no attribution scores -40.
\<close>

theorem calculateROIScore_negative_margin:
  "calculateROIScore
     (Some (emptyPlacement\<lparr>revenue := Some 10000, margin := Some (- 2000)\<rparr>)) None = - 40"
  by (simp add: calculateROIScore_def emptyPlacement_def js_round_def)

subsection \<open>Batch scoring\<close>



subsection \<open>Score histogram\<close>

lemma distributionLoop_counts:
  "distributionLoop scores
     [(''excellent (90-100)'', a), (''good (75-89)'', b), (''average (50-74)'', c),
      (''below_average (25-49)'', d), (''poor (0-24)'', e)] =
     [(''excellent (90-100)'', a + length (filter (\<lambda>s. getScoreTier s = ''excellent'') scores)),
      (''good (75-89)'', b + length (filter (\<lambda>s. getScoreTier s = ''good'') scores)),
      (''average (50-74)'', c + length (filter (\<lambda>s. getScoreTier s = ''average'') scores)),
      (''below_average (25-49)'',
         d + length (filter (\<lambda>s. getScoreTier s = ''below_average'') scores)),
      (''poor (0-24)'', e + length (filter (\<lambda>s. getScoreTier s = ''poor'') scores))]"
proof (induction scores arbitrary: a b c d e)
  case Nil
  show ?case by simp
next
  case (Cons s scores)
  show ?case
    by (simp add: Cons.IH getScoreTier_def)
qed

text \<open>
  C9. \<^verbatim>\<open>calculateScoreDistribution\<close> returns exactly the five buckets with the labels
  \<^verbatim>\<open>excellent (90-100)\<close>, \<^verbatim>\<open>good (75-89)\<close>, \<^verbatim>\<open>average (50-74)\<close>,
  \<^verbatim>\<open>below_average (25-49)\<close> and \<^verbatim>\<open>poor (0-24)\<close>; each bucket holds the number of input
  scores of its tier, so every bucket is present with 0 for the empty list, and the
  scores 100, 95, 80, 60, 30, 10 give the counts 2, 1, 1, 1, 1.
\<close>

theorem calculateScoreDistribution_buckets:
  "calculateScoreDistribution scores =
     [(''excellent (90-100)'', length (filter (\<lambda>s. getScoreTier s = ''excellent'') scores)),
      (''good (75-89)'', length (filter (\<lambda>s. getScoreTier s = ''good'') scores)),
      (''average (50-74)'', length (filter (\<lambda>s. getScoreTier s = ''average'') scores)),
      (''below_average (25-49)'', length (filter (\<lambda>s. getScoreTier s = ''below_average'') scores)),
      (''poor (0-24)'', length (filter (\<lambda>s. getScoreTier s = ''poor'') scores))] \<and>
   calculateScoreDistribution [] =
     [(''excellent (90-100)'', 0), (''good (75-89)'', 0), (''average (50-74)'', 0),
      (''below_average (25-49)'', 0), (''poor (0-24)'', 0)] \<and>
   calculateScoreDistribution [100, 95, 80, 60, 30, 10] =
     [(''excellent (90-100)'', 2), (''good (75-89)'', 1), (''average (50-74)'', 1),
      (''below_average (25-49)'', 1), (''poor (0-24)'', 1)]"
proof -
  have g: "calculateScoreDistribution xs =
     [(''excellent (90-100)'', length (filter (\<lambda>s. getScoreTier s = ''excellent'') xs)),
      (''good (75-89)'', length (filter (\<lambda>s. getScoreTier s = ''good'') xs)),
      (''average (50-74)'', length (filter (\<lambda>s. getScoreTier s = ''average'') xs)),
      (''below_average (25-49)'', length (filter (\<lambda>s. getScoreTier s = ''below_average'') xs)),
      (''poor (0-24)'', length (filter (\<lambda>s. getScoreTier s = ''poor'') xs))]" for xs
    unfolding calculateScoreDistribution_def emptyBuckets_def distributionLoop_counts by simp
  have e: "calculateScoreDistribution [] =
     [(''excellent (90-100)'', 0), (''good (75-89)'', 0), (''average (50-74)'', 0),
      (''below_average (25-49)'', 0), (''poor (0-24)'', 0)]"
    by (simp add: calculateScoreDistribution_def emptyBuckets_def)
  have x: "calculateScoreDistribution [100, 95, 80, 60, 30, 10] =
     [(''excellent (90-100)'', 2), (''good (75-89)'', 1), (''average (50-74)'', 1),
      (''below_average (25-49)'', 1), (''poor (0-24)'', 1)]"
    by (simp add: calculateScoreDistribution_def emptyBuckets_def)
  from g e x show ?thesis by blast
qed

subsection \<open>Double-precision arithmetic\<close>

text \<open>
  The exponent function is correct, and a rounding can be computed from a given
  exponent: \<open>fl_eval\<close> is used to evaluate the functions over doubles at concrete
  inputs.
\<close>

lemma pow2_powi: "pow2 k = 2 powi k"
  by (simp add: pow2_def power_int_def field_simps)

lemma pow2_pos: "0 < pow2 k"
  by (simp add: pow2_powi)

lemma pow2_mono: "a \<le> b \<Longrightarrow> pow2 a \<le> pow2 b"
  by (simp add: pow2_powi power_int_increasing)

lemma pow2_strict: "a < b \<Longrightarrow> pow2 a < pow2 b"
  by (simp add: pow2_powi power_int_strict_increasing)

lemma pow2_add: "pow2 (a + b) = pow2 a * pow2 b"
  by (simp add: pow2_powi power_int_add)

lemma expo_bounds:
  assumes "x \<noteq> 0"
  shows "pow2 (expo x) \<le> \<bar>x\<bar> \<and> \<bar>x\<bar> < pow2 (expo x + 1)"
proof (cases "\<bar>x\<bar> \<ge> 1")
  case True
  let ?n = "\<lfloor>\<bar>x\<bar>\<rfloor>"
  from True have n: "?n > 0" by linarith
  from bitlen_bounds [OF n] have b: "2 ^ nat (bitlen ?n - 1) \<le> ?n" "?n < 2 ^ nat (bitlen ?n)"
    by simp_all
  from n have bl: "bitlen ?n \<ge> 1" by (simp add: bitlen_alt_def)
  have e: "expo x = bitlen ?n - 1" using True by (simp add: expo_def)
  have "pow2 (expo x) = 2 ^ nat (bitlen ?n - 1)" using bl by (simp add: e pow2_def)
  also have "\<dots> \<le> of_int ?n" using b(1) by (metis of_int_le_iff of_int_numeral of_int_power)
  also have "\<dots> \<le> \<bar>x\<bar>" by simp
  finally have lo: "pow2 (expo x) \<le> \<bar>x\<bar>" .
  have "?n + 1 \<le> 2 ^ nat (bitlen ?n)" using b(2) by simp
  then have "real_of_int (?n + 1) \<le> 2 ^ nat (bitlen ?n)"
    by (metis of_int_le_iff of_int_numeral of_int_power)
  moreover have "\<bar>x\<bar> < real_of_int (?n + 1)" by linarith
  moreover have "pow2 (expo x + 1) = 2 ^ nat (bitlen ?n)" using bl by (simp add: e pow2_def)
  ultimately have hi: "\<bar>x\<bar> < pow2 (expo x + 1)" by linarith
  from lo hi show ?thesis by simp
next
  case False
  let ?y = "1 / \<bar>x\<bar>"
  let ?m = "\<lceil>?y\<rceil>"
  from False assms have y: "?y > 1" by simp
  then have m: "?m - 1 > 0" by linarith
  let ?c = "bitlen (?m - 1)"
  from bitlen_bounds [OF m] have b: "2 ^ nat (?c - 1) \<le> ?m - 1" "?m - 1 < 2 ^ nat ?c"
    by simp_all
  from m have c: "?c \<ge> 1" by (simp add: bitlen_alt_def)
  have e: "expo x = - ?c" using False by (simp add: expo_def)
  have "?m \<le> 2 ^ nat ?c" using b(2) by simp
  then have "real_of_int ?m \<le> 2 ^ nat ?c"
    by (metis of_int_le_iff of_int_numeral of_int_power)
  moreover have "?y \<le> real_of_int ?m" by linarith
  ultimately have yhi: "?y \<le> 2 ^ nat ?c" by linarith
  have "real_of_int (?m - 1) \<ge> 2 ^ nat (?c - 1)" using b(1)
    by (metis of_int_le_iff of_int_numeral of_int_power)
  moreover have "real_of_int (?m - 1) < ?y" by linarith
  ultimately have ylo: "2 ^ nat (?c - 1) < ?y" by linarith
  have ax: "\<bar>x\<bar> > 0" using assms by simp
  have lo: "pow2 (expo x) \<le> \<bar>x\<bar>"
  proof -
    have "pow2 (expo x) = 1 / 2 ^ nat ?c" using c by (simp add: e pow2_def)
    also have "\<dots> \<le> \<bar>x\<bar>" using yhi ax by (simp add: field_simps)
    finally show ?thesis .
  qed
  have hi: "\<bar>x\<bar> < pow2 (expo x + 1)"
  proof -
    have "pow2 (expo x + 1) = 1 / 2 ^ nat (?c - 1)"
      using c by (auto simp: e pow2_def)
    moreover have "\<bar>x\<bar> < 1 / 2 ^ nat (?c - 1)" using ylo ax by (simp add: field_simps)
    ultimately show ?thesis by simp
  qed
  from lo hi show ?thesis by simp
qed

lemma expo_unique:
  assumes "pow2 e \<le> \<bar>x\<bar>" and "\<bar>x\<bar> < pow2 (e + 1)"
  shows "expo x = e"
proof -
  from assms(1) pow2_pos [of e] have nz: "x \<noteq> 0" by auto
  note b = expo_bounds [OF nz]
  have "\<not> expo x < e"
  proof
    assume "expo x < e"
    then have "pow2 (expo x + 1) \<le> pow2 e" by (simp add: pow2_mono)
    with b assms(1) show False by linarith
  qed
  moreover have "\<not> e < expo x"
  proof
    assume "e < expo x"
    then have "pow2 (e + 1) \<le> pow2 (expo x)" by (simp add: pow2_mono)
    with b assms(2) show False by linarith
  qed
  ultimately show ?thesis by linarith
qed


lemma roundEven_of_int: "roundEven (of_int m) = m"
  by (simp add: roundEven_def)

lemma roundEven_near: "\<bar>of_int (roundEven y) - y\<bar> \<le> 1 / 2"
  unfolding roundEven_def Let_def by (simp; linarith)

lemma roundEven_mono: "a \<le> b \<Longrightarrow> roundEven a \<le> roundEven b"
proof -
  assume ab: "a \<le> b"
  have fa: "\<lfloor>a\<rfloor> \<le> \<lfloor>b\<rfloor>" using ab by (rule floor_mono)
  show ?thesis
  proof (cases "\<lfloor>a\<rfloor> = \<lfloor>b\<rfloor>")
    case True
    with ab show ?thesis by (auto simp: roundEven_def Let_def)
  next
    case False
    with fa have "\<lfloor>a\<rfloor> + 1 \<le> \<lfloor>b\<rfloor>" by simp
    moreover have "roundEven a \<le> \<lfloor>a\<rfloor> + 1" by (simp add: roundEven_def Let_def)
    moreover have "\<lfloor>b\<rfloor> \<le> roundEven b" by (simp add: roundEven_def Let_def)
    ultimately show ?thesis by linarith
  qed
qed

lemma roundEven_abs_le:
  assumes "\<bar>y\<bar> \<le> of_int n"
  shows "\<bar>roundEven y\<bar> \<le> n"
proof -
  from assms have "- of_int n \<le> y" "y \<le> of_int n" by linarith+
  then have "roundEven (of_int (- n)) \<le> roundEven y" "roundEven y \<le> roundEven (of_int n)"
    by (simp_all add: roundEven_mono)
  then show ?thesis by (simp add: roundEven_of_int del: of_int_minus)
qed

lemma fl_eval:
  assumes "pow2 e \<le> \<bar>x\<bar>" and "\<bar>x\<bar> < pow2 (e + 1)" and "- 1022 \<le> e" and "e \<le> 1022"
  shows "fl x = Fin (of_int (roundEven (x / pow2 (e - 52))) * pow2 (e - 52))"
proof -
  from assms(1) pow2_pos [of e] have nz: "x \<noteq> 0" by auto
  have ex: "expo x = e" by (rule expo_unique [OF assms(1,2)])
  let ?q = "pow2 (e - 52)"
  let ?r = "of_int (roundEven (x / ?q)) * ?q"
  have q: "0 < ?q" by (rule pow2_pos)
  have split: "pow2 (e + 1) = pow2 53 * ?q" using pow2_add [of 53 "e - 52"] by (simp add: add.commute)
  from assms(2) have "\<bar>x\<bar> < pow2 53 * ?q" unfolding split .
  then have "\<bar>x / ?q\<bar> < pow2 53" using q by (simp add: field_simps)
  then have "\<bar>x / ?q\<bar> \<le> of_int (2 ^ 53)" by (simp add: pow2_def)
  then have "\<bar>roundEven (x / ?q)\<bar> \<le> 2 ^ 53" by (rule roundEven_abs_le)
  then have "\<bar>real_of_int (roundEven (x / ?q))\<bar> \<le> 2 ^ 53"
    by (metis of_int_abs of_int_le_iff of_int_numeral of_int_power)
  then have "\<bar>?r\<bar> \<le> 2 ^ 53 * ?q" using q by (simp add: abs_mult mult_right_mono)
  also have "2 ^ 53 * ?q = pow2 (e + 1)" unfolding split by (simp add: pow2_def)
  also have "\<dots> \<le> pow2 1023" using assms(4) by (simp add: pow2_mono)
  also have "\<dots> < 2 ^ 1024" by (simp add: pow2_def)
  finally have small: "\<not> \<bar>?r\<bar> \<ge> 2 ^ 1024" by simp
  have m: "max (expo x) (- 1022) = e" using ex assms(3) by simp
  show ?thesis
    unfolding fl_def Let_def m using nz small by simp
qed

lemma fl_int:
  assumes "\<bar>n\<bar> < 2 ^ 53"
  shows "fl (of_int n) = Fin (of_int n)"
proof (cases "n = 0")
  case True
  then show ?thesis by (simp add: fl_def)
next
  case False
  let ?x = "real_of_int n"
  have nz: "?x \<noteq> 0" using False by simp
  note b = expo_bounds [OF nz]
  have "1 \<le> \<bar>n\<bar>" using False by simp
  then have "1 \<le> real_of_int \<bar>n\<bar>" by (simp only: of_int_1_le_iff)
  then have ge1: "1 \<le> \<bar>?x\<bar>" by simp
  from assms have "real_of_int \<bar>n\<bar> < real_of_int (2 ^ 53)" by (simp only: of_int_less_iff)
  then have lt: "\<bar>?x\<bar> < pow2 53" by (simp add: pow2_def)
  have e0: "0 \<le> expo ?x"
  proof (rule ccontr)
    assume "\<not> 0 \<le> expo ?x"
    then have "pow2 (expo ?x + 1) \<le> pow2 0" by (simp add: pow2_mono)
    with b ge1 show False by (simp add: pow2_def)
  qed
  have e52: "expo ?x \<le> 52"
  proof (rule ccontr)
    assume "\<not> expo ?x \<le> 52"
    then have "pow2 53 \<le> pow2 (expo ?x)" by (simp add: pow2_mono)
    with b lt show False by linarith
  qed
  let ?e = "expo ?x"
  let ?k = "nat (52 - ?e)"
  have q: "pow2 (?e - 52) = 1 / 2 ^ ?k" using e52 by (auto simp: pow2_def)
  have "?x / pow2 (?e - 52) = of_int (n * 2 ^ ?k)" by (simp add: q)
  then have re: "roundEven (?x / pow2 (?e - 52)) = n * 2 ^ ?k"
    by (simp only: roundEven_of_int)
  have "fl ?x = Fin (of_int (roundEven (?x / pow2 (?e - 52))) * pow2 (?e - 52))"
    using b e0 e52 by (intro fl_eval) simp_all
  then show ?thesis unfolding re by (simp add: q)
qed

lemma fl_Ints:
  assumes "x \<in> \<int>" and "\<bar>x\<bar> < 2 ^ 53"
  shows "fl x = Fin x"
proof -
  from assms(1) obtain n where n: "x = of_int n" by (auto elim: Ints_cases)
  with assms(2) have "real_of_int \<bar>n\<bar> < real_of_int (2 ^ 53)" by simp
  then have "\<bar>n\<bar> < 2 ^ 53" by (simp only: of_int_less_iff)
  from fl_int [OF this] n show ?thesis by simp
qed

lemma fl_not_NaN: "fl x \<noteq> NaN"
  by (simp add: fl_def Let_def)

lemma fl_eval_top:
  assumes "pow2 e \<le> \<bar>x\<bar>" and "\<bar>x\<bar> < pow2 (e + 1)" and "- 1022 \<le> e"
    and "\<bar>of_int (roundEven (x / pow2 (e - 52))) * pow2 (e - 52)\<bar> < 2 ^ 1024"
  shows "fl x = Fin (of_int (roundEven (x / pow2 (e - 52))) * pow2 (e - 52))"
proof -
  from assms(1) pow2_pos [of e] have nz: "x \<noteq> 0" by auto
  have ex: "expo x = e" by (rule expo_unique [OF assms(1,2)])
  have m: "max (expo x) (- 1022) = e" using ex assms(3) by simp
  show ?thesis
    unfolding fl_def Let_def m using nz assms(4) by simp
qed

lemma fl_overflow:
  assumes "2 ^ 1024 \<le> x"
  shows "fl x = PosInf"
proof -
  have xpos: "0 < x" using assms by (rule less_le_trans [rotated]) simp
  then have nz: "x \<noteq> 0" by simp
  let ?e = "expo x"
  note b = expo_bounds [OF nz]
  have e: "1024 \<le> ?e"
  proof (rule ccontr)
    assume "\<not> 1024 \<le> ?e"
    then have "pow2 (?e + 1) \<le> pow2 1024" by (simp add: pow2_mono)
    with b xpos assms show False by (simp add: pow2_def)
  qed
  let ?q = "pow2 (?e - 52)"
  have q: "0 < ?q" by (rule pow2_pos)
  have split: "pow2 ?e = pow2 52 * ?q" using pow2_add [of 52 "?e - 52"] by simp
  from b xpos have "pow2 52 * ?q \<le> x" unfolding split by simp
  then have "pow2 52 \<le> x / ?q" using q by (simp add: field_simps)
  then have "real_of_int (2 ^ 52) \<le> x / ?q" by (simp add: pow2_def)
  then have "roundEven (real_of_int (2 ^ 52)) \<le> roundEven (x / ?q)" by (rule roundEven_mono)
  then have "2 ^ 52 \<le> roundEven (x / ?q)" by (simp only: roundEven_of_int)
  then have "real_of_int (2 ^ 52) \<le> real_of_int (roundEven (x / ?q))"
    by (simp only: of_int_le_iff)
  then have "pow2 52 \<le> real_of_int (roundEven (x / ?q))" by (simp add: pow2_def)
  then have "pow2 52 * ?q \<le> real_of_int (roundEven (x / ?q)) * ?q"
    using q by (simp add: mult_right_mono)
  then have "pow2 ?e \<le> real_of_int (roundEven (x / ?q)) * ?q" unfolding split .
  moreover have "pow2 1024 \<le> pow2 ?e" using e by (rule pow2_mono)
  ultimately have big: "2 ^ 1024 \<le> \<bar>real_of_int (roundEven (x / ?q)) * ?q\<bar>"
    by (simp add: pow2_def)
  have m: "max ?e (- 1022) = ?e" using e by simp
  show ?thesis
    unfolding fl_def Let_def m using nz xpos big by simp
qed

subsection \<open>ROI score without cost data, over doubles\<close>

lemma fieldOr0_not_NaN: "fieldOr0 f \<noteq> NaN"
  by (simp add: fieldOr0_def Let_def fl_not_NaN split: option.splits)

lemma js_less_zero_cases:
  assumes "a \<noteq> NaN" and "\<not> js_less a (Fin 0)"
  shows "js_less (Fin 0) a \<longleftrightarrow> \<not> js_eq a (Fin 0)"
  using assms by (cases a) (auto simp: js_less_def js_eq_def)

lemma roi_no_cost:
  assumes "js_eq (fadd (fieldOr0 (marketingCost a)) (fieldOr0 (salesCost a))) (Fin 0)"
  shows "calculateROIScore_ieee (Some p) (Obj a) =
           mathMin (Fin 100)
             (mathRound
                (fmul (if js_less (Fin 0) (fieldOr0 (revenue p))
                       then fmul (fdiv (fieldOr0 (margin p)) (fieldOr0 (revenue p))) (Fin 100)
                       else Fin 0)
                      (Fin 2)))"
  using assms by (simp add: calculateROIScore_ieee_def Let_def)

lemma roi_missing_attribution:
  "calculateROIScore_ieee (Some p) Missing =
           mathMin (Fin 100)
             (mathRound
                (fmul (if js_less (Fin 0) (fieldOr0 (revenue p))
                       then fmul (fdiv (fieldOr0 (margin p)) (fieldOr0 (revenue p))) (Fin 100)
                       else Fin 0)
                      (Fin 2)))"
  by (simp add: calculateROIScore_ieee_def Let_def fieldOr0_def fadd_def fl_def js_eq_def)

text \<open>
  An attribution that is \<^verbatim>\<open>null\<close> makes the read of its cost throw; the \<^verbatim>\<open>catch\<close>
  branch answers with the score 0.
\<close>

lemma calculateROIScore_ieee_null: "calculateROIScore_ieee (Some p) IsNull = Fin 0"
  by (simp add: calculateROIScore_ieee_def)


lemma roi_margin_example:
  "calculateROIScore_ieee
     (Some (emptyPlacement\<lparr>revenue := Some 10000, margin := Some 2000\<rparr>)) Missing = Fin 40"
proof -
  have s1: "fl 10000 = Fin 10000"
    by (simp add: fl_Ints)
  have s2: "fl 2000 = Fin 2000"
    by (simp add: fl_Ints)
  have s3: "fl 0 = Fin 0"
    by (simp add: fl_def)
  have s4: "fadd (Fin 0) (Fin 0) = Fin 0"
    by (simp add: fadd_def fl_def)
  have s5: "fdiv (Fin 2000) (Fin 10000) = Fin (3602879701896397 / 18014398509481984)"
    using fl_eval [of "- 3" "2000 / 10000"] by (simp add: fdiv_def pow2_def roundEven_def)
  have s6: "fmul (Fin (3602879701896397 / 18014398509481984)) (Fin 100) = Fin 20"
    using fl_eval [of "4" "(3602879701896397 / 18014398509481984) * 100"] by (simp add: fmul_def pow2_def roundEven_def)
  have s7: "fmul (Fin 20) (Fin 2) = Fin 40"
    by (simp add: fmul_def fl_Ints)
  show ?thesis
    by (simp add: calculateROIScore_ieee_def emptyPlacement_def fieldOr0_def js_eq_def js_less_def mathMin_def mathMax_def mathRound_def Let_def s1 s2 s3 s4 s5 s6 s7)
qed


text \<open>
  C6, amended. For a placement whose attribution costs add up to 0 (or that has no
  attribution), \<^verbatim>\<open>calculateROIScore\<close> is \<open>min 100 (round (marginPercentage * 2))\<close> with
  \<open>marginPercentage = margin / revenue * 100\<close> when the revenue is positive and 0 when
  the revenue is 0 or negative, each operation being that of doubles. For a revenue that
  is not negative this is the formula of the specification. Revenue 10000 with margin
  2000 and no cost data scores 40.
\<close>

theorem calculateROIScore_margin_proxy:
  assumes "js_eq (fadd (fieldOr0 (marketingCost a)) (fieldOr0 (salesCost a))) (Fin 0)"
  shows "calculateROIScore_ieee (Some p) (Obj a) =
           mathMin (Fin 100)
             (mathRound
                (fmul (if js_less (Fin 0) (fieldOr0 (revenue p))
                       then fmul (fdiv (fieldOr0 (margin p)) (fieldOr0 (revenue p))) (Fin 100)
                       else Fin 0)
                      (Fin 2))) \<and>
         calculateROIScore_ieee (Some p) Missing = calculateROIScore_ieee (Some p) (Obj a) \<and>
         (\<not> js_less (fieldOr0 (revenue p)) (Fin 0) \<longrightarrow>
            calculateROIScore_ieee (Some p) (Obj a) =
              spec_marginProxyScore (fieldOr0 (revenue p)) (fieldOr0 (margin p))) \<and>
         calculateROIScore_ieee
           (Some (emptyPlacement\<lparr>revenue := Some 10000, margin := Some 2000\<rparr>)) Missing =
           Fin 40"
proof -
  note a = roi_no_cost [OF assms, of p]
  have b: "calculateROIScore_ieee (Some p) Missing = calculateROIScore_ieee (Some p) (Obj a)"
    unfolding a by (rule roi_missing_attribution)
  have c: "calculateROIScore_ieee (Some p) (Obj a) =
              spec_marginProxyScore (fieldOr0 (revenue p)) (fieldOr0 (margin p))"
    if "\<not> js_less (fieldOr0 (revenue p)) (Fin 0)"
    unfolding a spec_marginProxyScore_def Let_def
    using js_less_zero_cases [OF fieldOr0_not_NaN that] by simp
  from a b c roi_margin_example show ?thesis by blast
qed


text \<open>The theorem at revenue 10000, margin 2000 and an attribution with sales cost 0.\<close>

theorem calculateROIScore_margin_proxy_witness:
  "calculateROIScore_ieee
     (Some (emptyPlacement\<lparr>revenue := Some 10000, margin := Some 2000\<rparr>))
     (Obj \<lparr>marketingCost = None, salesCost = Some 0\<rparr>) = Fin 40 \<and>
   spec_marginProxyScore (Fin 10000) (Fin 2000) = Fin 40"
proof -
  let ?p = "emptyPlacement\<lparr>revenue := Some 10000, margin := Some 2000\<rparr>"
  let ?a = "\<lparr>marketingCost = None, salesCost = Some 0\<rparr>"
  have s1: "fl 10000 = Fin 10000"
    by (simp add: fl_Ints)
  have s2: "fl 2000 = Fin 2000"
    by (simp add: fl_Ints)
  have s3: "fl 0 = Fin 0"
    by (simp add: fl_def)
  have s4: "fadd (Fin 0) (Fin 0) = Fin 0"
    by (simp add: fadd_def fl_def)
  have s5: "fdiv (Fin 2000) (Fin 10000) = Fin (3602879701896397 / 18014398509481984)"
    using fl_eval [of "- 3" "2000 / 10000"] by (simp add: fdiv_def pow2_def roundEven_def)
  have s6: "fmul (Fin (3602879701896397 / 18014398509481984)) (Fin 100) = Fin 20"
    using fl_eval [of "4" "(3602879701896397 / 18014398509481984) * 100"] by (simp add: fmul_def pow2_def roundEven_def)
  have s7: "fmul (Fin 20) (Fin 2) = Fin 40"
    by (simp add: fmul_def fl_Ints)
  have rv: "fieldOr0 (revenue ?p) = Fin 10000" and mv: "fieldOr0 (margin ?p) = Fin 2000"
    by (simp_all add: emptyPlacement_def fieldOr0_def s1 s2)
  have cost: "js_eq (fadd (fieldOr0 (marketingCost ?a)) (fieldOr0 (salesCost ?a))) (Fin 0)"
    by (simp add: fieldOr0_def js_eq_def s3 s4)
  note T = calculateROIScore_margin_proxy [OF cost, of ?p]
  have nonneg: "\<not> js_less (fieldOr0 (revenue ?p)) (Fin 0)"
    unfolding rv by (simp add: js_less_def)
  from T have "calculateROIScore_ieee (Some ?p) (Obj ?a) =
           mathMin (Fin 100)
             (mathRound
                (fmul (if js_less (Fin 0) (fieldOr0 (revenue ?p))
                       then fmul (fdiv (fieldOr0 (margin ?p)) (fieldOr0 (revenue ?p))) (Fin 100)
                       else Fin 0)
                      (Fin 2)))"
    by blast
  then have v: "calculateROIScore_ieee (Some ?p) (Obj ?a) = Fin 40"
    unfolding rv mv by (simp add: js_less_def mathMin_def mathRound_def s1 s2 s3 s4 s5 s6 s7)
  from T nonneg have "calculateROIScore_ieee (Some ?p) (Obj ?a) =
      spec_marginProxyScore (fieldOr0 (revenue ?p)) (fieldOr0 (margin ?p))" by blast
  with v have "spec_marginProxyScore (Fin 10000) (Fin 2000) = Fin 40" unfolding rv mv by simp
  with v show ?thesis by blast
qed


text \<open>
  The claim as worded, with the percentage \<open>margin / revenue * 100\<close> for every revenue
  other than 0, fails at a negative revenue: for revenue -100 and margin -50 the code
  takes the percentage 0 and returns 0, the wording gives 100.
\<close>

theorem calculateROIScore_margin_proxy_counterexample:
  "calculateROIScore_ieee
     (Some (emptyPlacement\<lparr>revenue := Some (- 100), margin := Some (- 50)\<rparr>)) Missing =
     Fin 0 \<and>
   spec_marginProxyScore (Fin (- 100)) (Fin (- 50)) = Fin 100"
proof -
  have s1: "fl (- 100) = Fin (- 100)"
    by (simp add: fl_Ints)
  have s2: "fl (- 50) = Fin (- 50)"
    by (simp add: fl_Ints)
  have s3: "fl 0 = Fin 0"
    by (simp add: fl_def)
  have s4: "fadd (Fin 0) (Fin 0) = Fin 0"
    by (simp add: fadd_def fl_def)
  have s5: "fmul (Fin 0) (Fin 2) = Fin 0"
    by (simp add: fmul_def fl_def)
  have s6: "fdiv (Fin (- 50)) (Fin (- 100)) = Fin (1 / 2)"
    using fl_eval [of "- 1" "(- 50) / (- 100)"] by (simp add: fdiv_def pow2_def roundEven_def)
  have s7: "fmul (Fin (1 / 2)) (Fin 100) = Fin 50"
    by (simp add: fmul_def fl_Ints)
  have s8: "fmul (Fin 50) (Fin 2) = Fin 100"
    by (simp add: fmul_def fl_Ints)
  have code: "calculateROIScore_ieee
     (Some (emptyPlacement\<lparr>revenue := Some (- 100), margin := Some (- 50)\<rparr>)) Missing =
     Fin 0"
    by (simp add: calculateROIScore_ieee_def emptyPlacement_def fieldOr0_def js_eq_def js_less_def mathMin_def mathMax_def mathRound_def Let_def s1 s2 s3 s4 s5 s6 s7 s8)
  have spec: "spec_marginProxyScore (Fin (- 100)) (Fin (- 50)) = Fin 100"
    by (simp add: spec_marginProxyScore_def js_eq_def js_less_def mathMin_def mathRound_def
        Let_def s1 s2 s3 s4 s5 s6 s7 s8)
  from code spec show ?thesis by blast
qed

text \<open>
  The rounding of doubles decides the score: for revenue 8000 and margin 2300 the
  doubled percentage is 57.5 in exact arithmetic and 57.49999999999999 in doubles, and
  the score is 57.
\<close>

lemma calculateROIScore_ieee_rounding:
  "calculateROIScore_ieee
     (Some (emptyPlacement\<lparr>revenue := Some 8000, margin := Some 2300\<rparr>)) Missing = Fin 57"
proof -
  have s1: "fl 8000 = Fin 8000"
    by (simp add: fl_Ints)
  have s2: "fl 2300 = Fin 2300"
    by (simp add: fl_Ints)
  have s3: "fl 0 = Fin 0"
    by (simp add: fl_def)
  have s4: "fadd (Fin 0) (Fin 0) = Fin 0"
    by (simp add: fadd_def fl_def)
  have s5: "fdiv (Fin 2300) (Fin 8000) = Fin (2589569785738035 / 9007199254740992)"
    using fl_eval [of "- 2" "2300 / 8000"] by (simp add: fdiv_def pow2_def roundEven_def)
  have s6: "fmul (Fin (2589569785738035 / 9007199254740992)) (Fin 100) = Fin (8092405580431359 / 281474976710656)"
    using fl_eval [of "4" "(2589569785738035 / 9007199254740992) * 100"] by (simp add: fmul_def pow2_def roundEven_def)
  have s7: "fmul (Fin (8092405580431359 / 281474976710656)) (Fin 2) = Fin (8092405580431359 / 140737488355328)"
    using fl_eval [of "5" "(8092405580431359 / 281474976710656) * 2"] by (simp add: fmul_def pow2_def roundEven_def)
  show ?thesis
    by (simp add: calculateROIScore_ieee_def emptyPlacement_def fieldOr0_def js_eq_def js_less_def mathMin_def mathMax_def mathRound_def Let_def s1 s2 s3 s4 s5 s6 s7)
qed


text \<open>The negative score of a negative margin is the same over doubles.\<close>

lemma calculateROIScore_ieee_negative_margin:
  "calculateROIScore_ieee
     (Some (emptyPlacement\<lparr>revenue := Some 10000, margin := Some (- 2000)\<rparr>)) Missing =
     Fin (- 40)"
proof -
  have s1: "fl 10000 = Fin 10000"
    by (simp add: fl_Ints)
  have s2: "fl (- 2000) = Fin (- 2000)"
    by (simp add: fl_Ints)
  have s3: "fl 0 = Fin 0"
    by (simp add: fl_def)
  have s4: "fadd (Fin 0) (Fin 0) = Fin 0"
    by (simp add: fadd_def fl_def)
  have s5: "fdiv (Fin (- 2000)) (Fin 10000) = Fin (- (3602879701896397 / 18014398509481984))"
    using fl_eval [of "- 3" "(- 2000) / 10000"] by (simp add: fdiv_def pow2_def roundEven_def)
  have s6: "fmul (Fin (- (3602879701896397 / 18014398509481984))) (Fin 100) = Fin (- 20)"
    using fl_eval [of "4" "(- (3602879701896397 / 18014398509481984)) * 100"] by (simp add: fmul_def pow2_def roundEven_def)
  have s7: "fmul (Fin (- 20)) (Fin 2) = Fin (- 40)"
    by (simp add: fmul_def fl_Ints)
  show ?thesis
    by (simp add: calculateROIScore_ieee_def emptyPlacement_def fieldOr0_def js_eq_def js_less_def mathMin_def mathMax_def mathRound_def Let_def s1 s2 s3 s4 s5 s6 s7)
qed

text \<open>The branch with cost data rounds in doubles too: 57.49999999999999 / 5 gives 11.\<close>

lemma calculateROIScore_ieee_cost_branch:
  "calculateROIScore_ieee (Some (emptyPlacement\<lparr>revenue := Some 6300\<rparr>))
     (Obj \<lparr>marketingCost = Some 4000, salesCost = None\<rparr>) = Fin 11"
proof -
  have s1: "fl 6300 = Fin 6300"
    by (simp add: fl_Ints)
  have s2: "fl 4000 = Fin 4000"
    by (simp add: fl_Ints)
  have s3: "fadd (Fin 4000) (Fin 0) = Fin 4000"
    by (simp add: fadd_def fl_Ints)
  have s4: "fsub (Fin 6300) (Fin 4000) = Fin 2300"
    by (simp add: fsub_def fadd_def fneg_def fl_Ints)
  have s5: "fdiv (Fin 2300) (Fin 4000) = Fin (2589569785738035 / 4503599627370496)"
    using fl_eval [of "- 1" "2300 / 4000"] by (simp add: fdiv_def pow2_def roundEven_def)
  have s6: "fmul (Fin (2589569785738035 / 4503599627370496)) (Fin 100) = Fin (8092405580431359 / 140737488355328)"
    using fl_eval [of "5" "(2589569785738035 / 4503599627370496) * 100"] by (simp add: fmul_def pow2_def roundEven_def)
  have s7: "fdiv (Fin (8092405580431359 / 140737488355328)) (Fin 5) = Fin (6473924464345087 / 562949953421312)"
    using fl_eval [of "3" "(8092405580431359 / 140737488355328) / 5"] by (simp add: fdiv_def pow2_def roundEven_def)
  show ?thesis
    by (simp add: calculateROIScore_ieee_def emptyPlacement_def fieldOr0_def js_eq_def js_less_def mathMin_def mathMax_def mathRound_def Let_def s1 s2 s3 s4 s5 s6 s7)
qed

subsection \<open>Overall score with weights of the caller, over doubles\<close>

lemma overall_example_default:
  "calculateOverallScore_ieee (Fin 80) (Fin 60) None = Fin 68"
proof -
  have s1: "fl (2 / 5) = Fin (3602879701896397 / 9007199254740992)"
    using fl_eval [of "- 2" "(2 / 5)"] by (simp add: pow2_def roundEven_def)
  have s2: "fl (3 / 5) = Fin (5404319552844595 / 9007199254740992)"
    using fl_eval [of "- 1" "(3 / 5)"] by (simp add: pow2_def roundEven_def)
  have s3: "fadd (Fin 0) (Fin (3602879701896397 / 9007199254740992)) = Fin (3602879701896397 / 9007199254740992)"
    using fl_eval [of "- 2" "0 + (3602879701896397 / 9007199254740992)"] by (simp add: fadd_def pow2_def roundEven_def)
  have s4: "fadd (Fin (3602879701896397 / 9007199254740992)) (Fin (5404319552844595 / 9007199254740992)) = Fin 1"
    by (simp add: fadd_def fl_Ints)
  have s5: "fdiv (Fin (3602879701896397 / 9007199254740992)) (Fin 1) = Fin (3602879701896397 / 9007199254740992)"
    using fl_eval [of "- 2" "(3602879701896397 / 9007199254740992) / 1"] by (simp add: fdiv_def pow2_def roundEven_def)
  have s6: "fdiv (Fin (5404319552844595 / 9007199254740992)) (Fin 1) = Fin (5404319552844595 / 9007199254740992)"
    using fl_eval [of "- 1" "(5404319552844595 / 9007199254740992) / 1"] by (simp add: fdiv_def pow2_def roundEven_def)
  have s7: "fmul (Fin 80) (Fin (3602879701896397 / 9007199254740992)) = Fin 32"
    using fl_eval [of "5" "80 * (3602879701896397 / 9007199254740992)"] by (simp add: fmul_def pow2_def roundEven_def)
  have s8: "fmul (Fin 60) (Fin (5404319552844595 / 9007199254740992)) = Fin 36"
    using fl_eval [of "5" "60 * (5404319552844595 / 9007199254740992)"] by (simp add: fmul_def pow2_def roundEven_def)
  have s9: "fadd (Fin 32) (Fin 36) = Fin 68"
    by (simp add: fadd_def fl_Ints)
  have tot: "weightsTotal defaultWeights_ieee = Fin 1"
    by (simp add: weightsTotal_def defaultWeights_ieee_def objectEntries_def isDigit_def sumDoubles_def s1 s2 s3 s4 s5 s6 s7 s8 s9)
  have mapv: "map_of defaultWeights_ieee ''velocity'' = Some (4 / 10)"
    and mapr: "map_of defaultWeights_ieee ''roi'' = Some (6 / 10)"
    by (simp_all add: defaultWeights_ieee_def)
  have nw: "normalizeWeights_ieee defaultWeights_ieee =
      \<lparr>nw_velocity = Fin (3602879701896397 / 9007199254740992), nw_roi = Fin (5404319552844595 / 9007199254740992)\<rparr>"
    by (simp add: normalizeWeights_ieee_def tot mapv mapr js_eq_def fieldOr0_def s1 s2 s3 s4 s5 s6 s7 s8 s9)
  show ?thesis
    by (simp add: calculateOverallScore_ieee_def nw mathRound_def s1 s2 s3 s4 s5 s6 s7 s8 s9)
qed

lemma overall_example_even:
  "calculateOverallScore_ieee (Fin 100) (Fin 50) (Some [(''velocity'', 1 / 2), (''roi'', 1 / 2)]) = Fin 75"
proof -
  have s1: "fl (1 / 2) = Fin (1 / 2)"
    using fl_eval [of "- 1" "(1 / 2)"] by (simp add: pow2_def roundEven_def)
  have s2: "fadd (Fin 0) (Fin (1 / 2)) = Fin (1 / 2)"
    using fl_eval [of "- 1" "0 + (1 / 2)"] by (simp add: fadd_def pow2_def roundEven_def)
  have s3: "fadd (Fin (1 / 2)) (Fin (1 / 2)) = Fin 1"
    by (simp add: fadd_def fl_Ints)
  have s4: "fdiv (Fin (1 / 2)) (Fin 1) = Fin (1 / 2)"
    using fl_eval [of "- 1" "(1 / 2) / 1"] by (simp add: fdiv_def pow2_def roundEven_def)
  have s5: "fmul (Fin 100) (Fin (1 / 2)) = Fin 50"
    by (simp add: fmul_def fl_Ints)
  have s6: "fmul (Fin 50) (Fin (1 / 2)) = Fin 25"
    by (simp add: fmul_def fl_Ints)
  have s7: "fadd (Fin 50) (Fin 25) = Fin 75"
    by (simp add: fadd_def fl_Ints)
  have tot: "weightsTotal [(''velocity'', 1 / 2), (''roi'', 1 / 2)] = Fin 1"
    by (simp add: weightsTotal_def objectEntries_def isDigit_def sumDoubles_def s1 s2 s3 s4 s5 s6 s7)
  have nw: "normalizeWeights_ieee [(''velocity'', 1 / 2), (''roi'', 1 / 2)] =
      \<lparr>nw_velocity = Fin (1 / 2), nw_roi = Fin (1 / 2)\<rparr>"
    by (simp add: normalizeWeights_ieee_def tot js_eq_def fieldOr0_def s1 s2 s3 s4 s5 s6 s7)
  show ?thesis
    by (simp add: calculateOverallScore_ieee_def nw mathRound_def s1 s2 s3 s4 s5 s6 s7)
qed


text \<open>
  C7, amended. \<^verbatim>\<open>calculateOverallScore\<close> returns \<^verbatim>\<open>Math.round\<close> of
  \<open>velocityScore * nv + roiScore * nr\<close> in double arithmetic. The total is the sum of the
  values of all keys of the weights object; when it is 0 the weights \<open>nv\<close> and \<open>nr\<close> are
  1/2 and 1/2, otherwise they are \<^verbatim>\<open>weights.velocity || 0\<close> and \<^verbatim>\<open>weights.roi || 0\<close>, each
  divided by the total. Without a weights argument the default pair 0.4/0.6 is used.
  \<^verbatim>\<open>calculateOverallScore(80, 60)\<close> is 68 and
  \<^verbatim>\<open>calculateOverallScore(100, 50, {velocity: 0.5, roi: 0.5})\<close> is 75.
\<close>

theorem calculateOverallScore_weighted:
  assumes "distinct (map fst w)"
  shows "(let total = weightsTotal w; nw = normalizeWeights_ieee w
          in (js_eq total (Fin 0) \<longrightarrow>
                nw_velocity nw = Fin (1 / 2) \<and> nw_roi nw = Fin (1 / 2)) \<and>
             (\<not> js_eq total (Fin 0) \<longrightarrow>
                nw_velocity nw = fdiv (fieldOr0 (map_of w ''velocity'')) total \<and>
                nw_roi nw = fdiv (fieldOr0 (map_of w ''roi'')) total) \<and>
             calculateOverallScore_ieee v r (Some w) =
               mathRound (fadd (fmul v (nw_velocity nw)) (fmul r (nw_roi nw)))) \<and>
         calculateOverallScore_ieee v r None =
           calculateOverallScore_ieee v r (Some defaultWeights_ieee) \<and>
         calculateOverallScore_ieee (Fin 80) (Fin 60) None = Fin 68 \<and>
         calculateOverallScore_ieee (Fin 100) (Fin 50)
           (Some [(''velocity'', 1 / 2), (''roi'', 1 / 2)]) = Fin 75"
proof -
  have zero: "nw_velocity (normalizeWeights_ieee w) = Fin (1 / 2) \<and>
      nw_roi (normalizeWeights_ieee w) = Fin (1 / 2)"
    if "js_eq (weightsTotal w) (Fin 0)"
    using that by (simp add: normalizeWeights_ieee_def Let_def)
  have ratio: "nw_velocity (normalizeWeights_ieee w) =
        fdiv (fieldOr0 (map_of w ''velocity'')) (weightsTotal w) \<and>
      nw_roi (normalizeWeights_ieee w) = fdiv (fieldOr0 (map_of w ''roi'')) (weightsTotal w)"
    if "\<not> js_eq (weightsTotal w) (Fin 0)"
    using that by (simp add: normalizeWeights_ieee_def Let_def)
  have shape: "calculateOverallScore_ieee v r (Some w) =
      mathRound (fadd (fmul v (nw_velocity (normalizeWeights_ieee w)))
                      (fmul r (nw_roi (normalizeWeights_ieee w))))"
    by (simp add: calculateOverallScore_ieee_def Let_def)
  have dflt: "calculateOverallScore_ieee v r None =
           calculateOverallScore_ieee v r (Some defaultWeights_ieee)"
    by (simp add: calculateOverallScore_ieee_def)
  show ?thesis
    unfolding Let_def
    using zero ratio shape dflt overall_example_default overall_example_even by blast
qed


text \<open>
  The theorem at the weights 3 and 1 (normalized to 3/4 and 1/4) and at a weights
  object whose total is 0 (the even split).
\<close>

theorem calculateOverallScore_weighted_witness:
  "nw_velocity (normalizeWeights_ieee [(''velocity'', 3), (''roi'', 1)]) = Fin (3 / 4) \<and>
   nw_roi (normalizeWeights_ieee [(''velocity'', 3), (''roi'', 1)]) = Fin (1 / 4) \<and>
   calculateOverallScore_ieee (Fin 100) (Fin 50) (Some [(''velocity'', 3), (''roi'', 1)]) =
     Fin 88 \<and>
   nw_velocity (normalizeWeights_ieee [(''velocity'', 0)]) = Fin (1 / 2) \<and>
   nw_roi (normalizeWeights_ieee [(''velocity'', 0)]) = Fin (1 / 2) \<and>
   calculateOverallScore_ieee (Fin 100) (Fin 50) (Some [(''velocity'', 0)]) = Fin 75"
proof -
  let ?w = "[(''velocity'', 3), (''roi'', 1)] :: weights_object"
  let ?z = "[(''velocity'', 0)] :: weights_object"
  have s1: "fl 3 = Fin 3"
    by (simp add: fl_Ints)
  have s2: "fl 1 = Fin 1"
    by (simp add: fl_Ints)
  have s3: "fadd (Fin 0) (Fin 3) = Fin 3"
    by (simp add: fadd_def fl_Ints)
  have s4: "fadd (Fin 3) (Fin 1) = Fin 4"
    by (simp add: fadd_def fl_Ints)
  have s5: "fdiv (Fin 3) (Fin 4) = Fin (3 / 4)"
    using fl_eval [of "- 1" "3 / 4"] by (simp add: fdiv_def pow2_def roundEven_def)
  have s6: "fdiv (Fin 1) (Fin 4) = Fin (1 / 4)"
    using fl_eval [of "- 2" "1 / 4"] by (simp add: fdiv_def pow2_def roundEven_def)
  have s7: "fmul (Fin 100) (Fin (3 / 4)) = Fin 75"
    by (simp add: fmul_def fl_Ints)
  have s8: "fmul (Fin 50) (Fin (1 / 4)) = Fin (25 / 2)"
    using fl_eval [of "3" "50 * (1 / 4)"] by (simp add: fmul_def pow2_def roundEven_def)
  have s9: "fadd (Fin 75) (Fin (25 / 2)) = Fin (175 / 2)"
    using fl_eval [of "6" "75 + (25 / 2)"] by (simp add: fadd_def pow2_def roundEven_def)
  have totw: "weightsTotal [(''velocity'', 3), (''roi'', 1)] = Fin 4"
    by (simp add: weightsTotal_def objectEntries_def isDigit_def sumDoubles_def s1 s2 s3 s4 s5 s6 s7 s8 s9)
  have z1: "fl 0 = Fin 0"
    by (simp add: fl_def)
  have z2: "fadd (Fin 0) (Fin 0) = Fin 0"
    by (simp add: fadd_def fl_def)
  have z3: "fmul (Fin 100) (Fin (1 / 2)) = Fin 50"
    by (simp add: fmul_def fl_Ints)
  have z4: "fmul (Fin 50) (Fin (1 / 2)) = Fin 25"
    by (simp add: fmul_def fl_Ints)
  have z5: "fadd (Fin 50) (Fin 25) = Fin 75"
    by (simp add: fadd_def fl_Ints)
  have totz: "weightsTotal [(''velocity'', 0)] = Fin 0"
    by (simp add: weightsTotal_def objectEntries_def isDigit_def sumDoubles_def z1 z2 z3 z4 z5)
  have dw: "distinct (map fst ?w)" and dz: "distinct (map fst ?z)" by simp_all
  note W = calculateOverallScore_weighted
    [where w = ?w and v = "Fin 100" and r = "Fin 50", OF dw, unfolded Let_def]
  note Z = calculateOverallScore_weighted
    [where w = ?z and v = "Fin 100" and r = "Fin 50", OF dz, unfolded Let_def]
  have nzw: "\<not> js_eq (weightsTotal ?w) (Fin 0)" by (simp add: totw js_eq_def)
  have zz: "js_eq (weightsTotal ?z) (Fin 0)" by (simp add: totz js_eq_def)
  from W nzw have "nw_velocity (normalizeWeights_ieee ?w) =
      fdiv (fieldOr0 (map_of ?w ''velocity'')) (weightsTotal ?w)" by blast
  then have w1: "nw_velocity (normalizeWeights_ieee ?w) = Fin (3 / 4)"
    by (simp add: totw fieldOr0_def s1 s2 s3 s4 s5 s6 s7 s8 s9)
  from W nzw have "nw_roi (normalizeWeights_ieee ?w) =
      fdiv (fieldOr0 (map_of ?w ''roi'')) (weightsTotal ?w)" by blast
  then have w2: "nw_roi (normalizeWeights_ieee ?w) = Fin (1 / 4)"
    by (simp add: totw fieldOr0_def s1 s2 s3 s4 s5 s6 s7 s8 s9)
  from W have "calculateOverallScore_ieee (Fin 100) (Fin 50) (Some ?w) =
      mathRound (fadd (fmul (Fin 100) (nw_velocity (normalizeWeights_ieee ?w)))
                      (fmul (Fin 50) (nw_roi (normalizeWeights_ieee ?w))))" by blast
  then have w3: "calculateOverallScore_ieee (Fin 100) (Fin 50) (Some ?w) = Fin 88"
    unfolding w1 w2 by (simp add: mathRound_def s1 s2 s3 s4 s5 s6 s7 s8 s9)
  from Z zz have z1: "nw_velocity (normalizeWeights_ieee ?z) = Fin (1 / 2)" by blast
  from Z zz have z2: "nw_roi (normalizeWeights_ieee ?z) = Fin (1 / 2)" by blast
  from Z have "calculateOverallScore_ieee (Fin 100) (Fin 50) (Some ?z) =
      mathRound (fadd (fmul (Fin 100) (nw_velocity (normalizeWeights_ieee ?z)))
                      (fmul (Fin 50) (nw_roi (normalizeWeights_ieee ?z))))" by blast
  then have z3: "calculateOverallScore_ieee (Fin 100) (Fin 50) (Some ?z) = Fin 75"
    unfolding z1 z2 by (simp add: mathRound_def z1 z2 z3 z4 z5)
  from w1 w2 w3 z1 z2 z3 show ?thesis by blast
qed


text \<open>
  The claim as worded, the rounded weighted sum with weights that add up to 1, fails
  on doubles: for the scores 28 and 1 and the weights 1 and 5 the weighted sum is 5.5
  and rounds to 6; the code divides 1 and 5 by 6 in doubles, gets two weights whose sum
  is not 1 and the weighted sum 5.499999999999999, and returns 5.
\<close>

theorem calculateOverallScore_weighted_counterexample:
  "calculateOverallScore_ieee (Fin 28) (Fin 1) (Some [(''velocity'', 1), (''roi'', 5)]) = Fin 5 \<and>
   spec_overallScore 28 1 1 5 = 6 \<and>
   normalizeWeights_ieee [(''velocity'', 1), (''roi'', 5)] =
     \<lparr>nw_velocity = Fin (6004799503160661 / 36028797018963968),
      nw_roi = Fin (7505999378950827 / 9007199254740992)\<rparr> \<and>
   6004799503160661 / 36028797018963968 + 7505999378950827 / 9007199254740992 \<noteq> (1 :: real)"
proof -
  have s1: "fl 1 = Fin 1"
    by (simp add: fl_Ints)
  have s2: "fl 5 = Fin 5"
    by (simp add: fl_Ints)
  have s3: "fadd (Fin 0) (Fin 1) = Fin 1"
    by (simp add: fadd_def fl_Ints)
  have s4: "fadd (Fin 1) (Fin 5) = Fin 6"
    by (simp add: fadd_def fl_Ints)
  have s5: "fdiv (Fin 1) (Fin 6) = Fin (6004799503160661 / 36028797018963968)"
    using fl_eval [of "- 3" "1 / 6"] by (simp add: fdiv_def pow2_def roundEven_def)
  have s6: "fdiv (Fin 5) (Fin 6) = Fin (7505999378950827 / 9007199254740992)"
    using fl_eval [of "- 1" "5 / 6"] by (simp add: fdiv_def pow2_def roundEven_def)
  have s7: "fmul (Fin 28) (Fin (6004799503160661 / 36028797018963968)) = Fin (2627099782632789 / 562949953421312)"
    using fl_eval [of "2" "28 * (6004799503160661 / 36028797018963968)"] by (simp add: fmul_def pow2_def roundEven_def)
  have s8: "fmul (Fin 1) (Fin (7505999378950827 / 9007199254740992)) = Fin (7505999378950827 / 9007199254740992)"
    using fl_eval [of "- 1" "1 * (7505999378950827 / 9007199254740992)"] by (simp add: fmul_def pow2_def roundEven_def)
  have s9: "fadd (Fin (2627099782632789 / 562949953421312)) (Fin (7505999378950827 / 9007199254740992)) = Fin (6192449487634431 / 1125899906842624)"
    using fl_eval [of "2" "(2627099782632789 / 562949953421312) + (7505999378950827 / 9007199254740992)"] by (simp add: fadd_def pow2_def roundEven_def)
  have tot: "weightsTotal [(''velocity'', 1), (''roi'', 5)] = Fin 6"
    by (simp add: weightsTotal_def objectEntries_def isDigit_def sumDoubles_def s1 s2 s3 s4 s5 s6 s7 s8 s9)
  have nw: "normalizeWeights_ieee [(''velocity'', 1), (''roi'', 5)] =
      \<lparr>nw_velocity = Fin (6004799503160661 / 36028797018963968), nw_roi = Fin (7505999378950827 / 9007199254740992)\<rparr>"
    by (simp add: normalizeWeights_ieee_def tot js_eq_def fieldOr0_def s1 s2 s3 s4 s5 s6 s7 s8 s9)
  have code: "calculateOverallScore_ieee (Fin 28) (Fin 1)
      (Some [(''velocity'', 1), (''roi'', 5)]) = Fin 5"
    by (simp add: calculateOverallScore_ieee_def nw mathRound_def s1 s2 s3 s4 s5 s6 s7 s8 s9)
  have spec: "spec_overallScore 28 1 1 5 = 6"
    by (simp add: spec_overallScore_def js_round_def)
  have off: "6004799503160661 / 36028797018963968 + 7505999378950827 / 9007199254740992 \<noteq>
      (1 :: real)"
    by simp
  from code spec nw off show ?thesis by blast
qed

text \<open>
  A further key of the weights object enters the total: with \<^verbatim>\<open>bonus: 2\<close> the weights
  1 and 1 become 1/4 and 1/4, and two scores of 100 combine to 50.
\<close>

lemma calculateOverallScore_ieee_extra_key:
  "calculateOverallScore_ieee (Fin 100) (Fin 100) (Some [(''velocity'', 1), (''roi'', 1), (''bonus'', 2)]) = Fin 50"
proof -
  have s1: "fl 1 = Fin 1"
    by (simp add: fl_Ints)
  have s2: "fl 2 = Fin 2"
    by (simp add: fl_Ints)
  have s3: "fadd (Fin 0) (Fin 1) = Fin 1"
    by (simp add: fadd_def fl_Ints)
  have s4: "fadd (Fin 1) (Fin 1) = Fin 2"
    by (simp add: fadd_def fl_Ints)
  have s5: "fadd (Fin 2) (Fin 2) = Fin 4"
    by (simp add: fadd_def fl_Ints)
  have s6: "fdiv (Fin 1) (Fin 4) = Fin (1 / 4)"
    using fl_eval [of "- 2" "1 / 4"] by (simp add: fdiv_def pow2_def roundEven_def)
  have s7: "fmul (Fin 100) (Fin (1 / 4)) = Fin 25"
    by (simp add: fmul_def fl_Ints)
  have s8: "fadd (Fin 25) (Fin 25) = Fin 50"
    by (simp add: fadd_def fl_Ints)
  have tot: "weightsTotal [(''velocity'', 1), (''roi'', 1), (''bonus'', 2)] = Fin 4"
    by (simp add: weightsTotal_def objectEntries_def isDigit_def sumDoubles_def s1 s2 s3 s4 s5 s6 s7 s8)
  have nw: "normalizeWeights_ieee [(''velocity'', 1), (''roi'', 1), (''bonus'', 2)] =
      \<lparr>nw_velocity = Fin (1 / 4), nw_roi = Fin (1 / 4)\<rparr>"
    by (simp add: normalizeWeights_ieee_def tot js_eq_def fieldOr0_def s1 s2 s3 s4 s5 s6 s7 s8)
  show ?thesis
    by (simp add: calculateOverallScore_ieee_def nw mathRound_def s1 s2 s3 s4 s5 s6 s7 s8)
qed

text \<open>
  Weights whose sum exceeds the largest double: the total is infinite, both normalized
  weights are 0 and so is the score.
\<close>

lemma calculateOverallScore_ieee_overflow:
  "calculateOverallScore_ieee (Fin 100) (Fin 50)
     (Some [(''velocity'', 10 ^ 308), (''roi'', 10 ^ 308)]) = Fin 0"
proof -
  let ?d = "100000000000000001097906362944045541740492309677311846336810682903157585404911491537163328978494688899061249669721172515611590283743140088328307009198146046031271664502933027185697489699588559043338384466165001178426897626212945177628091195786707458122783970171784415105291802893207873272974885715430223118336 :: real"
  have s1: "fl 100000000000000000000000000000000000000000000000000000000000000000000000000000000000000000000000000000000000000000000000000000000000000000000000000000000000000000000000000000000000000000000000000000000000000000000000000000000000000000000000000000000000000000000000000000000000000000000000000000000000000000000 = Fin ?d"
    using fl_eval_top [of 1023 "10 ^ 308"] by (simp add: pow2_def roundEven_def)
  have s2: "fadd (Fin 0) (Fin ?d) = Fin ?d"
    using fl_eval_top [of 1023 "?d"] by (simp add: fadd_def pow2_def roundEven_def)
  have s3: "fadd (Fin ?d) (Fin ?d) = PosInf"
    using fl_overflow [of "?d + ?d"] by (simp add: fadd_def)
  have s4: "fmul (Fin 100) (Fin 0) = Fin 0" and s5: "fmul (Fin 50) (Fin 0) = Fin 0"
    and s6: "fadd (Fin 0) (Fin 0) = Fin 0"
    by (simp_all add: fmul_def fadd_def fl_def)
  have tot: "weightsTotal [(''velocity'', 100000000000000000000000000000000000000000000000000000000000000000000000000000000000000000000000000000000000000000000000000000000000000000000000000000000000000000000000000000000000000000000000000000000000000000000000000000000000000000000000000000000000000000000000000000000000000000000000000000000000000000000), (''roi'', 100000000000000000000000000000000000000000000000000000000000000000000000000000000000000000000000000000000000000000000000000000000000000000000000000000000000000000000000000000000000000000000000000000000000000000000000000000000000000000000000000000000000000000000000000000000000000000000000000000000000000000000)] = PosInf"
    by (simp add: weightsTotal_def objectEntries_def isDigit_def sumDoubles_def s1 s2 s3)
  have nw: "normalizeWeights_ieee [(''velocity'', 100000000000000000000000000000000000000000000000000000000000000000000000000000000000000000000000000000000000000000000000000000000000000000000000000000000000000000000000000000000000000000000000000000000000000000000000000000000000000000000000000000000000000000000000000000000000000000000000000000000000000000000), (''roi'', 100000000000000000000000000000000000000000000000000000000000000000000000000000000000000000000000000000000000000000000000000000000000000000000000000000000000000000000000000000000000000000000000000000000000000000000000000000000000000000000000000000000000000000000000000000000000000000000000000000000000000000000)] =
      \<lparr>nw_velocity = Fin 0, nw_roi = Fin 0\<rparr>"
    by (simp add: normalizeWeights_ieee_def tot js_eq_def fieldOr0_def fdiv_def s1)
  have big: "(10 :: real) ^ 308 = 100000000000000000000000000000000000000000000000000000000000000000000000000000000000000000000000000000000000000000000000000000000000000000000000000000000000000000000000000000000000000000000000000000000000000000000000000000000000000000000000000000000000000000000000000000000000000000000000000000000000000000000"
    by simp
  show ?thesis
    unfolding big by (simp add: calculateOverallScore_ieee_def nw mathRound_def s4 s5 s6)
qed

subsection \<open>Enumeration of plain objects\<close>

lemma objectEntries_set: "set (objectEntries obj) = set obj"
  by (auto simp: objectEntries_def)

lemma objectEntries_distinct:
  assumes "distinct (map fst obj)"
  shows "distinct (map fst (objectEntries obj))"
proof -
  from assms have d: "distinct obj" and i: "inj_on fst (set obj)"
    by (simp_all add: distinct_map)
  have "distinct (objectEntries obj)"
    using d by (auto simp: objectEntries_def)
  moreover have "inj_on fst (set (objectEntries obj))"
    using i by (simp add: objectEntries_set)
  ultimately show ?thesis by (simp add: distinct_map)
qed

lemma objectEntries_lookup:
  assumes "distinct (map fst obj)"
  shows "map_of (objectEntries obj) = map_of obj"
  using assms objectEntries_distinct [OF assms]
  by (simp add: map_of_inject_set objectEntries_set)

lemma objectEntries_plain:
  assumes "list_all (\<lambda>(k, v). \<not> isArrayIndex k) obj"
  shows "objectEntries obj = obj"
proof -
  from assms have "filter (\<lambda>(k, v). isArrayIndex k) obj = []"
    by (auto simp: filter_empty_conv list_all_iff)
  moreover from assms have "filter (\<lambda>(k, v). \<not> isArrayIndex k) obj = obj"
    by (auto simp: filter_id_conv list_all_iff)
  ultimately show ?thesis by (simp add: objectEntries_def)
qed

text \<open>Keys that are array indices come first, in numeric order.\<close>

lemma objectEntries_order_example:
  "objectEntries [(''IT'', 1::nat), (''10'', 2), (''2'', 3), (''007'', 4)] =
       [(''2'', 3), (''10'', 2), (''IT'', 1), (''007'', 4)]"
  by (simp add: objectEntries_def isDigit_def decimalValue_def)

lemma proto_key: "''__proto__'' \<in> set objectPrototypeKeys"
  by (simp add: objectPrototypeKeys_def)

lemma getProperty_safe:
  assumes "k \<notin> set objectPrototypeKeys"
  shows "getProperty obj k = (case map_of obj k of Some v \<Rightarrow> OwnValue v | None \<Rightarrow> NoProperty)"
  using assms proto_key by (auto simp: getProperty_def split: option.splits)

subsection \<open>Service-line attribution\<close>

lemma attributionStep_safe:
  assumes "lineOf p \<notin> set objectPrototypeKeys"
  shows "attributionStep p (attr, polluted) =
     Inr (AList.map_entry (lineOf p) (addPlacement p)
            (if map_of attr (lineOf p) = None
             then attr @ [(lineOf p, newEntry (lineOf p))] else attr), polluted)"
  by (auto simp: attributionStep_def Let_def getProperty_safe [OF assms] split: option.splits)

lemma attribution_step_lookup:
  "map_of (AList.map_entry (lineOf p) (addPlacement p)
            (if map_of attr (lineOf p) = None
             then attr @ [(lineOf p, newEntry (lineOf p))] else attr)) k =
   (if k = lineOf p
    then Some (addPlacement p (case map_of attr k of None \<Rightarrow> newEntry k | Some d \<Rightarrow> d))
    else map_of attr k)"
  by (auto simp: map_of_map_entry map_add_def split: option.splits)

lemma attribution_step_distinct:
  assumes "distinct (map fst attr)"
  shows "distinct (map fst (AList.map_entry (lineOf p) (addPlacement p)
            (if map_of attr (lineOf p) = None
             then attr @ [(lineOf p, newEntry (lineOf p))] else attr)))"
proof (rule distinct_map_entry)
  show "distinct (map fst (if map_of attr (lineOf p) = None
             then attr @ [(lineOf p, newEntry (lineOf p))] else attr))"
    using assms by (auto simp: map_of_eq_None_iff)
qed

lemma attributionLoop_safe:
  assumes "safeLabels ps" and "distinct (map fst attr)"
  shows "\<exists>attr'. attributionLoop ps (attr, polluted) = Inr (attr', polluted) \<and>
           distinct (map fst attr') \<and>
           (\<forall>k. map_of attr' k =
              (if groupOf k ps = [] then map_of attr k
               else Some (foldl (\<lambda>d p. addPlacement p d)
                            (case map_of attr k of None \<Rightarrow> newEntry k | Some d \<Rightarrow> d)
                            (groupOf k ps))))"
  using assms
proof (induction ps arbitrary: attr)
  case Nil
  then show ?case by (simp add: groupOf_def)
next
  case (Cons p ps)
  let ?attr1 = "AList.map_entry (lineOf p) (addPlacement p)
            (if map_of attr (lineOf p) = None
             then attr @ [(lineOf p, newEntry (lineOf p))] else attr)"
  from Cons.prems(1) have safe: "lineOf p \<notin> set objectPrototypeKeys" and rest: "safeLabels ps"
    by (simp_all add: safeLabels_def)
  have d1: "distinct (map fst ?attr1)"
    by (rule attribution_step_distinct [OF Cons.prems(2)])
  from Cons.IH [OF rest d1] obtain attr' where
    run: "attributionLoop ps (?attr1, polluted) = Inr (attr', polluted)" and
    d': "distinct (map fst attr')" and
    look: "\<And>k. map_of attr' k =
              (if groupOf k ps = [] then map_of ?attr1 k
               else Some (foldl (\<lambda>d p. addPlacement p d)
                            (case map_of ?attr1 k of None \<Rightarrow> newEntry k | Some d \<Rightarrow> d)
                            (groupOf k ps)))"
    by blast
  have "attributionLoop (p # ps) (attr, polluted) = Inr (attr', polluted)"
    by (simp add: attributionStep_safe [OF safe] run)
  moreover have "map_of attr' k =
              (if groupOf k (p # ps) = [] then map_of attr k
               else Some (foldl (\<lambda>d p. addPlacement p d)
                            (case map_of attr k of None \<Rightarrow> newEntry k | Some d \<Rightarrow> d)
                            (groupOf k (p # ps))))" for k
    unfolding look attribution_step_lookup by (simp add: groupOf_def)
  ultimately show ?case using d' by blast
qed

lemma foldl_addPlacement:
  "foldl (\<lambda>d p. addPlacement p d) d g =
     d\<lparr>placementCount := placementCount d + length g,
       totalRevenue := foldl fadd (totalRevenue d) (map (\<lambda>p. fieldOr0 (revenue p)) g),
       totalMargin := foldl fadd (totalMargin d) (map (\<lambda>p. fieldOr0 (margin p)) g),
       velocityScores := velocityScores d @ truthyScores g\<rparr>"
proof (induction g arbitrary: d)
  case Nil
  show ?case by (simp add: truthyScores_def)
next
  case (Cons p g)
  show ?case
    unfolding foldl_Cons Cons.IH
    by (simp add: addPlacement_def truthyScores_def split: option.splits)
qed

text \<open>
  C3, amended. For placements whose labels are not names inherited from
  \<^verbatim>\<open>Object.prototype\<close>, \<^verbatim>\<open>calculateServiceLineAttribution\<close> returns one group for each
  service line that occurs, keyed by the label of the placement, with \<^verbatim>\<open>Unassigned\<close>
  for an absent or empty label (\<^const>\<open>lineOf\<close>), so every placement is in exactly one
  group. The group of a label counts its placements, adds up their revenue and their
  margin (in doubles, in the order of the list), and has as \<^verbatim>\<open>averageVelocity\<close> the
  rounded mean of the velocity scores of those of its placements whose score is present
  and not 0, or 0 when there is none.
\<close>

theorem calculateServiceLineAttribution_groups:
  assumes "safeLabels ps"
  shows "\<exists>res. calculateServiceLineAttribution ps = Inr res \<and>
           distinct (map fst res) \<and>
           set (map fst res) = lineOf ` set ps \<and>
           (\<forall>k. map_of res k =
              (if groupOf k ps = [] then None
               else Some \<lparr>as_serviceLine = k,
                          placementCount = length (groupOf k ps),
                          totalRevenue =
                            sumDoubles (map (\<lambda>p. fieldOr0 (revenue p)) (groupOf k ps)),
                          totalMargin =
                            sumDoubles (map (\<lambda>p. fieldOr0 (margin p)) (groupOf k ps)),
                          averageVelocity =
                            (if truthyScores (groupOf k ps) = [] then Fin 0
                             else mathRound
                                    (fdiv (sumDoubles (truthyScores (groupOf k ps)))
                                          (Fin (real (length (truthyScores (groupOf k ps)))))))\<rparr>))"
proof -
  from attributionLoop_safe [OF assms, of "[]" False] obtain attr where
    run: "attributionLoop ps ([], False) = Inr (attr, False)" and
    d: "distinct (map fst attr)" and
    look: "\<And>k. map_of attr k =
              (if groupOf k ps = [] then None
               else Some (foldl (\<lambda>d p. addPlacement p d) (newEntry k) (groupOf k ps)))"
    by auto
  let ?fin = "map (\<lambda>(sl, d). (sl, finishEntry d)) attr"
  let ?res = "objectEntries ?fin"
  have keys: "map fst ?fin = map fst attr" by (simp add: case_prod_unfold)
  have dfin: "distinct (map fst ?fin)" unfolding keys by (rule d)
  have r: "calculateServiceLineAttribution ps = Inr ?res"
    by (simp add: calculateServiceLineAttribution_def run)
  have dres: "distinct (map fst ?res)" by (rule objectEntries_distinct [OF dfin])
  have lres: "map_of ?res k =
              (if groupOf k ps = [] then None
               else Some \<lparr>as_serviceLine = k,
                          placementCount = length (groupOf k ps),
                          totalRevenue =
                            sumDoubles (map (\<lambda>p. fieldOr0 (revenue p)) (groupOf k ps)),
                          totalMargin =
                            sumDoubles (map (\<lambda>p. fieldOr0 (margin p)) (groupOf k ps)),
                          averageVelocity =
                            (if truthyScores (groupOf k ps) = [] then Fin 0
                             else mathRound
                                    (fdiv (sumDoubles (truthyScores (groupOf k ps)))
                                          (Fin (real (length (truthyScores (groupOf k ps)))))))\<rparr>)"
    for k
    unfolding objectEntries_lookup [OF dfin]
    by (simp add: map_of_map look foldl_addPlacement finishEntry_def newEntry_def sumDoubles_def)
  have "fst ` set ?res = dom (map_of ?res)"
    by (simp add: dom_map_of_conv_image_fst)
  also have "\<dots> = {k. groupOf k ps \<noteq> []}"
    by (auto simp: dom_def lres)
  also have "\<dots> = lineOf ` set ps"
    by (auto simp: groupOf_def filter_empty_conv)
  finally have sres: "set (map fst ?res) = lineOf ` set ps" by simp
  from r dres sres lres show ?thesis by blast
qed

text \<open>
  The theorem at the grouping test of the repository, with a fourth placement that has
  no label and carries a velocity score.
\<close>

theorem calculateServiceLineAttribution_groups_witness:
  "\<exists>res. calculateServiceLineAttribution
       [emptyPlacement\<lparr>serviceLine := Some ''IT'', revenue := Some 5000, margin := Some 1000\<rparr>,
        emptyPlacement\<lparr>serviceLine := Some ''IT'', revenue := Some 7000, margin := Some 1500\<rparr>,
        emptyPlacement\<lparr>serviceLine := Some ''Healthcare'', revenue := Some 8000,
          margin := Some 2000\<rparr>,
        emptyPlacement\<lparr>revenue := Some 5000, margin := Some 1000, velocityScore := Some 72\<rparr>]
       = Inr res \<and>
     map_of res ''IT'' =
       Some \<lparr>as_serviceLine = ''IT'', placementCount = 2, totalRevenue = Fin 12000,
             totalMargin = Fin 2500, averageVelocity = Fin 0\<rparr> \<and>
     map_of res ''Unassigned'' =
       Some \<lparr>as_serviceLine = ''Unassigned'', placementCount = 1, totalRevenue = Fin 5000,
             totalMargin = Fin 1000, averageVelocity = Fin 72\<rparr>"
proof -
  let ?ps = "[emptyPlacement\<lparr>serviceLine := Some ''IT'', revenue := Some 5000, margin := Some 1000\<rparr>,
        emptyPlacement\<lparr>serviceLine := Some ''IT'', revenue := Some 7000, margin := Some 1500\<rparr>,
        emptyPlacement\<lparr>serviceLine := Some ''Healthcare'', revenue := Some 8000,
          margin := Some 2000\<rparr>,
        emptyPlacement\<lparr>revenue := Some 5000, margin := Some 1000, velocityScore := Some 72\<rparr>]"
  have safe: "safeLabels ?ps"
    by (simp add: safeLabels_def lineOf_def emptyPlacement_def objectPrototypeKeys_def)
  from calculateServiceLineAttribution_groups [OF safe] obtain res where
    r: "calculateServiceLineAttribution ?ps = Inr res" and
    look: "\<And>k. map_of res k =
              (if groupOf k ?ps = [] then None
               else Some \<lparr>as_serviceLine = k,
                          placementCount = length (groupOf k ?ps),
                          totalRevenue =
                            sumDoubles (map (\<lambda>p. fieldOr0 (revenue p)) (groupOf k ?ps)),
                          totalMargin =
                            sumDoubles (map (\<lambda>p. fieldOr0 (margin p)) (groupOf k ?ps)),
                          averageVelocity =
                            (if truthyScores (groupOf k ?ps) = [] then Fin 0
                             else mathRound
                                    (fdiv (sumDoubles (truthyScores (groupOf k ?ps)))
                                          (Fin (real (length (truthyScores (groupOf k ?ps)))))))\<rparr>)"
    by blast
  have it: "map_of res ''IT'' =
       Some \<lparr>as_serviceLine = ''IT'', placementCount = 2, totalRevenue = Fin 12000,
             totalMargin = Fin 2500, averageVelocity = Fin 0\<rparr>"
    unfolding look
    by (simp add: groupOf_def lineOf_def emptyPlacement_def truthyScores_def truthyScore_def
        sumDoubles_def fieldOr0_def fadd_def fl_Ints)
  have un: "map_of res ''Unassigned'' =
       Some \<lparr>as_serviceLine = ''Unassigned'', placementCount = 1, totalRevenue = Fin 5000,
             totalMargin = Fin 1000, averageVelocity = Fin 72\<rparr>"
    unfolding look
    by (simp add: groupOf_def lineOf_def emptyPlacement_def truthyScores_def truthyScore_def
        sumDoubles_def fieldOr0_def fadd_def fdiv_def mathRound_def fl_Ints)
  from r it un show ?thesis by blast
qed

text \<open>
  The claim as worded averages over the placements that carry a \<^verbatim>\<open>velocityScore\<close>
  field. Two placements of one line with the scores 0 and 100 both carry the field,
  so the wording gives the mean 50; the code skips the score 0 and reports 100.
\<close>

theorem calculateServiceLineAttribution_counterexample:
  "calculateServiceLineAttribution
        [emptyPlacement\<lparr>serviceLine := Some ''IT'', velocityScore := Some 0\<rparr>,
         emptyPlacement\<lparr>serviceLine := Some ''IT'', velocityScore := Some 100\<rparr>] =
     Inr [(''IT'', \<lparr>as_serviceLine = ''IT'', placementCount = 2, totalRevenue = Fin 0,
                    totalMargin = Fin 0, averageVelocity = Fin 100\<rparr>)] \<and>
   spec_carriedScores
        [emptyPlacement\<lparr>serviceLine := Some ''IT'', velocityScore := Some 0\<rparr>,
         emptyPlacement\<lparr>serviceLine := Some ''IT'', velocityScore := Some 100\<rparr>] =
     [Fin 0, Fin 100] \<and>
   mathRound (fdiv (sumDoubles [Fin 0, Fin 100]) (Fin 2)) = Fin 50"
  by (simp add: calculateServiceLineAttribution_def attributionStep_def getProperty_def
      objectPrototypeKeys_def objectEntries_def emptyPlacement_def lineOf_def newEntry_def
      addPlacement_def truthyScore_def finishEntry_def spec_carriedScores_def sumDoubles_def
      fieldOr0_def fadd_def fdiv_def mathRound_def fl_Ints Let_def)

text \<open>
  A label that is an inherited name gets no group: for \<^verbatim>\<open>constructor\<close> the result is
  the empty object, or a TypeError when the placement carries a velocity score; for
  \<^verbatim>\<open>__proto__\<close> the second loop throws a TypeError.
\<close>

lemma calculateServiceLineAttribution_inherited_label:
  "calculateServiceLineAttribution
     [emptyPlacement\<lparr>serviceLine := Some ''constructor'', revenue := Some 5000\<rparr>] = Inr [] \<and>
   calculateServiceLineAttribution
     [emptyPlacement\<lparr>serviceLine := Some ''constructor'', velocityScore := Some 72\<rparr>] =
     Inl TypeError \<and>
   calculateServiceLineAttribution
     [emptyPlacement\<lparr>serviceLine := Some ''__proto__'', revenue := Some 5000\<rparr>] =
     Inl TypeError"
  by (simp add: calculateServiceLineAttribution_def attributionStep_def getProperty_def
      objectPrototypeKeys_def objectEntries_def emptyPlacement_def lineOf_def
      truthyScore_def fl_Ints Let_def)

subsection \<open>Velocity report\<close>

lemma velocityLoop_safe_step:
  assumes "lineOf p \<notin> set objectPrototypeKeys"
  shows "velocityLoop parse isoMonth (p # ps) (byLine, velocityTrend) =
     (case toISOMonth isoMonth (newDate parse (js_or (startDate p) (createdAt p))) of
        Inl e \<Rightarrow> Inl e
      | Inr month \<Rightarrow>
          velocityLoop parse isoMonth ps
            (AList.map_entry (lineOf p)
               (\<lambda>d. d\<lparr>lv_scores := lv_scores d @ [the (velocityScore p)],
                       lv_count := lv_count d + 1\<rparr>)
               (if map_of byLine (lineOf p) = None
                then byLine @ [(lineOf p, \<lparr>lv_scores = [], lv_count = 0\<rparr>)] else byLine),
             pushTrend month (the (velocityScore p)) velocityTrend))"
  by (auto simp: Let_def getProperty_safe [OF assms] split: option.splits sum.splits)

lemma velocityLoop_invalid:
  assumes "safeLabels ps"
    and "\<exists>p \<in> set ps. newDate parse (js_or (startDate p) (createdAt p)) = None"
  shows "velocityLoop parse isoMonth ps st = Inl RangeError"
  using assms
proof (induction ps arbitrary: st)
  case Nil
  then show ?case by simp
next
  case (Cons p ps)
  obtain byLine velocityTrend where st: "st = (byLine, velocityTrend)" by (cases st)
  from Cons.prems(1) have safe: "lineOf p \<notin> set objectPrototypeKeys" and rest: "safeLabels ps"
    by (simp_all add: safeLabels_def)
  show ?case
  proof (cases "newDate parse (js_or (startDate p) (createdAt p))")
    case None
    then show ?thesis by (simp add: st velocityLoop_safe_step [OF safe] del: velocityLoop.simps)
  next
    case (Some t)
    with Cons.prems(2)
    have "\<exists>q \<in> set ps. newDate parse (js_or (startDate q) (createdAt q)) = None"
      by auto
    from Cons.IH [OF rest this] Some show ?thesis
      by (simp add: st velocityLoop_safe_step [OF safe] del: velocityLoop.simps)
  qed
qed

lemma velocityLoop_valid:
  assumes "safeLabels ps"
    and "\<forall>p \<in> set ps. newDate parse (js_or (startDate p) (createdAt p)) \<noteq> None"
  shows "\<exists>st'. velocityLoop parse isoMonth ps st = Inr st'"
  using assms
proof (induction ps arbitrary: st)
  case Nil
  then show ?case by simp
next
  case (Cons p ps)
  obtain byLine velocityTrend where st: "st = (byLine, velocityTrend)" by (cases st)
  from Cons.prems(1) have safe: "lineOf p \<notin> set objectPrototypeKeys" and rest: "safeLabels ps"
    by (simp_all add: safeLabels_def)
  from Cons.prems(2) obtain t where
    t: "newDate parse (js_or (startDate p) (createdAt p)) = Some t"
    by auto
  from Cons.prems(2)
  have "\<forall>q \<in> set ps. newDate parse (js_or (startDate q) (createdAt q)) \<noteq> None"
    by simp
  from Cons.IH [OF rest this] t show ?case
    by (simp add: st velocityLoop_safe_step [OF safe] del: velocityLoop.simps)
qed

lemma batch_invalid_iff:
  "(\<exists>p \<in> set (batchCalculateScores parse ps).
       newDate parse (js_or (startDate p) (createdAt p)) = None) \<longleftrightarrow>
   (\<exists>p \<in> set ps. newDate parse (js_or (startDate p) (createdAt p)) = None)"
  by (simp add: batchCalculateScores_def Let_def)

lemma batch_safeLabels: "safeLabels (batchCalculateScores parse ps) = safeLabels ps"
  by (simp add: safeLabels_def batchCalculateScores_def Let_def list_all_iff lineOf_def)

lemma getPlacementVelocityData_throws_iff:
  assumes "safeLabels ps"
  shows "getPlacementVelocityData parse isoMonth ps = Inl RangeError \<longleftrightarrow>
   (\<exists>p \<in> set ps. newDate parse (js_or (startDate p) (createdAt p)) = None)"
proof (cases "\<exists>p \<in> set ps. newDate parse (js_or (startDate p) (createdAt p)) = None")
  case True
  then have "\<exists>p \<in> set (batchCalculateScores parse ps).
       newDate parse (js_or (startDate p) (createdAt p)) = None"
    by (simp add: batch_invalid_iff)
  from velocityLoop_invalid [OF _ this] assms
  have "velocityLoop parse isoMonth (batchCalculateScores parse ps) ([], []) = Inl RangeError"
    by (simp add: batch_safeLabels)
  then have "getPlacementVelocityData parse isoMonth ps = Inl RangeError"
    by (simp add: getPlacementVelocityData_def Let_def)
  with True show ?thesis by simp
next
  case False
  then have "\<not> (\<exists>p \<in> set (batchCalculateScores parse ps).
       newDate parse (js_or (startDate p) (createdAt p)) = None)"
    by (simp add: batch_invalid_iff)
  then have "\<forall>p \<in> set (batchCalculateScores parse ps).
       newDate parse (js_or (startDate p) (createdAt p)) \<noteq> None" by auto
  moreover from assms have "safeLabels (batchCalculateScores parse ps)"
    by (simp add: batch_safeLabels)
  ultimately obtain st' where
    "velocityLoop parse isoMonth (batchCalculateScores parse ps) ([], []) = Inr st'"
    using velocityLoop_valid [of "batchCalculateScores parse ps" parse isoMonth "([], [])"]
    by blast
  then have "getPlacementVelocityData parse isoMonth ps \<noteq> Inl RangeError"
    by (simp add: getPlacementVelocityData_def Let_def split: prod.splits)
  with False show ?thesis by simp
qed

text \<open>
  C2. The core operations return a result and do not throw, also when the fill
  timestamp of a placement is missing or does not parse: the record scores 0 and the
  report is still built. \<^verbatim>\<open>calculateVelocityScore\<close> checks the dates and returns 0,
  but \<^verbatim>\<open>getPlacementVelocityData\<close> calls \<^verbatim>\<open>toISOString\<close> on the unchecked fill date:
  with one valid placement and one placement without \<^verbatim>\<open>startDate\<close> and
  \<^verbatim>\<open>createdAt\<close> the second scores 0 and the report ends in a RangeError. By
  \<open>getPlacementVelocityData_throws_iff\<close> this happens, for labels that are not inherited
  names, exactly when some fill date is invalid.
\<close>

theorem getPlacementVelocityData_missing_date:
  "calculateVelocityScore testParse
     (Some (emptyPlacement\<lparr>serviceLine := Some ''IT'', revenue := Some 10000,
        margin := Some 2000\<rparr>)) None = 0 \<and>
   getPlacementVelocityData testParse testIsoMonth
     [emptyPlacement\<lparr>serviceLine := Some ''IT'', startDate := Str ''2024-01-05T00:00:00Z'',
        job := Some \<lparr>job_createdAt = Str ''2024-01-01T00:00:00Z'', openDate = Undefined\<rparr>\<rparr>,
      emptyPlacement\<lparr>serviceLine := Some ''IT'', revenue := Some 10000,
        margin := Some 2000\<rparr>] = Inl RangeError"
  by (simp add: getPlacementVelocityData_def batchCalculateScores_def calculateVelocityScore_def
      getProperty_def objectPrototypeKeys_def
      emptyPlacement_def lineOf_def js_or_def testParse_def Let_def)

text \<open>The report for the valid placement alone.\<close>

lemma getPlacementVelocityData_test:
  "getPlacementVelocityData testParse testIsoMonth
     [emptyPlacement\<lparr>serviceLine := Some ''IT'', startDate := Str ''2024-01-05T00:00:00Z'',
        job := Some \<lparr>job_createdAt = Str ''2024-01-01T00:00:00Z'', openDate = Undefined\<rparr>\<rparr>] =
   Inr \<lparr>summary = \<lparr>overallAverageVelocity = 92, tier = ''excellent'', totalPlacements = 1\<rparr>,
        byServiceLine = [\<lparr>st_serviceLine = ''IT'', st_averageVelocity = 92,
                          st_placementCount = 1, st_tier = ''excellent''\<rparr>],
        trend = [\<lparr>tp_month = ''2024-01'', tp_averageVelocity = 92\<rparr>],
        distribution = [(''excellent (90-100)'', 1), (''good (75-89)'', 0),
                        (''average (50-74)'', 0), (''below_average (25-49)'', 0),
                        (''poor (0-24)'', 0)]\<rparr>"
  by (simp add: getPlacementVelocityData_def batchCalculateScores_def calculateVelocityScore_def
      calculateROIScore_def overall_default calculateScoreDistribution_def emptyBuckets_def
      getScoreTier_def mean_def js_round_def getProperty_def objectPrototypeKeys_def
      objectEntries_def
      emptyPlacement_def lineOf_def js_or_def testParse_def testIsoMonth_def Let_def)

text \<open>A label that is an inherited name ends the report in a TypeError.\<close>

lemma getPlacementVelocityData_inherited_label:
  "getPlacementVelocityData testParse testIsoMonth
     [emptyPlacement\<lparr>serviceLine := Some ''constructor'',
        startDate := Str ''2024-01-05T00:00:00Z'',
        job := Some \<lparr>job_createdAt = Str ''2024-01-01T00:00:00Z'', openDate = Undefined\<rparr>\<rparr>] =
   Inl TypeError"
  by (simp add: getPlacementVelocityData_def batchCalculateScores_def
      getProperty_def objectPrototypeKeys_def emptyPlacement_def lineOf_def Let_def)

end
